theory Spec2Isabelle
  imports Complex_Main "HOL-Library.Log_Nat"
begin

section \<open>Data model (backend/app/models)\<close>

text \<open>
  A \<^verbatim>\<open>datetime\<close> is a point on Python's naive clock, counted in microseconds (the
  resolution of \<^verbatim>\<open>datetime\<close>) from \<^verbatim>\<open>datetime.min\<close>, the first instant of year 1;
  a \<^verbatim>\<open>timedelta\<close> is a difference of two of them. Python's datetimes end with
  \<^verbatim>\<open>datetime.max\<close>, the last microsecond of year 9999, which is 3652059 days after
  \<^verbatim>\<open>datetime.min\<close>. Primary keys are strings. Nullable columns are options.
\<close>

type_synonym datetime = int
type_synonym ident = string

definition valid_datetime :: "datetime \<Rightarrow> bool" where
  "valid_datetime t \<longleftrightarrow> 0 \<le> t \<and> t \<le> 315537897599999999"

text \<open>models/enums.py. The constructors of different enums that share a name in the
  source carry the enum as a prefix here.\<close>

datatype SubscriptionStatus = ACTIVE | FROZEN | Subscription_EXPIRED | BLOCKED

datatype SessionStatus = OPEN | FULL | Session_CANCELLED | COMPLETED | CLOSED

datatype EnrollmentStatus = REGISTERED | CANCELED | ATTENDED | NO_SHOW

datatype PlanType = MONTHLY | YEARLY | WEEKLY | DAILY | VIP

datatype WaitingListStatus = WAITING | ASSIGNED | CONFIRMED | EXPIRED | CANCELLED

text \<open>The columns the waiting-list repository reads or writes; the other columns of
  Plan, Subscription, ClassSession and Member (name, price, dates, email, ...) are never
  touched by it and are left out.\<close>

record Plan =
  plan_id :: ident
  plan_type :: PlanType

record Subscription =
  sub_id :: ident
  sub_member_id :: ident
  sub_plan_id :: ident
  sub_status :: SubscriptionStatus

record ClassSession =
  cs_id :: ident
  cs_status :: SessionStatus

record Member =
  m_id :: ident
  fullname :: string

record Enrollment =
  en_id :: ident
  en_class_session_id :: ident
  en_member_id :: ident
  en_status :: EnrollmentStatus
  en_created_at :: datetime
  canceled_at :: "datetime option"
  cancel_reason :: "string option"

record WaitingList =
  wl_id :: ident
  class_session_id :: ident
  member_id :: ident
  status :: WaitingListStatus
  position :: int
  priority_score :: int
  approval_deadline :: "datetime option"
  created_at :: datetime
  assigned_at :: "datetime option"
  confirmed_at :: "datetime option"
  cancelled_at :: "datetime option"

text \<open>The committed contents of the database: one list of rows per table, in storage
  order. A query without \<^verbatim>\<open>order_by\<close> returns rows in that order.\<close>

record database =
  class_session_tbl :: "ClassSession list"
  members_tbl :: "Member list"
  plans_tbl :: "Plan list"
  subscriptions_tbl :: "Subscription list"
  enrollment_tbl :: "Enrollment list"
  waiting_list_tbl :: "WaitingList list"

text \<open>The exceptions of exceptions/exceptions.py as the handlers map them
  (NotFoundError 404, DuplicateError 409, AppError 400), each with its message, and the
  exceptions of the runtime and of the ORM that the modelled paths can raise.\<close>

datatype error =
    NotFoundError string
  | DuplicateError string
  | AppError string
  | IntegrityError
  | AttributeError string
  | DetachedInstanceError

text \<open>
  An ORM object as a caller holds it. Inside its session it is loaded and its columns can
  be read. \<^verbatim>\<open>db_manager.py\<close> builds the session factory without
  \<^verbatim>\<open>expire_on_commit=False\<close>, so \<^verbatim>\<open>session.commit()\<close> expires every attribute, and
  leaving the \<^verbatim>\<open>with\<close> block closes the session: an object returned after both is
  detached with nothing loaded, and reading any column of it raises
  \<^verbatim>\<open>DetachedInstanceError\<close>.
\<close>

datatype 'a orm_instance = Loaded 'a | Detached

definition read_column :: "('a \<Rightarrow> 'b) \<Rightarrow> 'a orm_instance \<Rightarrow> error + 'b" where
  "read_column col obj =
     (case obj of Loaded row \<Rightarrow> Inr (col row) | Detached \<Rightarrow> Inl DetachedInstanceError)"

section \<open>Query helpers\<close>

text \<open>\<^verbatim>\<open>query.first()\<close>: the first row of the result, or None.\<close>

definition first :: "'a list \<Rightarrow> 'a option" where
  "first xs = (case xs of [] \<Rightarrow> None | x # _ \<Rightarrow> Some x)"

text \<open>The filter that three queries of the repository share: the WAITING rows of one
  session.\<close>

definition is_waiting :: "ident \<Rightarrow> WaitingList \<Rightarrow> bool" where
  "is_waiting sid e \<longleftrightarrow> class_session_id e = sid \<and> status e = WAITING"

definition waiting_entries :: "WaitingList list \<Rightarrow> ident \<Rightarrow> WaitingList list" where
  "waiting_entries tbl sid = filter (is_waiting sid) tbl"

text \<open>\<^verbatim>\<open>timedelta(hours=h)\<close> in microseconds.\<close>

definition timedelta_hours :: "int \<Rightarrow> int" where
  "timedelta_hours h = h * 3600000000"

section \<open>Double-precision arithmetic\<close>

text \<open>
  Python's \<^verbatim>\<open>float\<close> is IEEE 754 binary64. A finite double is kept as the rational
  it denotes. Every division the repository makes is correctly rounded: to the nearest
  double, ties to the even significand. \<open>binade x\<close> is the exponent \<open>e\<close> with
  \<open>2\<^sup>e \<le> x < 2\<^sup>e\<^sup>+\<^sup>1\<close>; the doubles of that binade are the multiples of
  \<open>2\<^sup>e\<^sup>-\<^sup>5\<^sup>2\<close>. The quotients that arise from datetimes lie between \<open>10\<^sup>-\<^sup>1\<^sup>0\<close>
  and \<open>10\<^sup>1\<^sup>2\<close> in magnitude, far inside the normal range, so overflow and
  subnormal numbers are left out.
\<close>

definition round_half_even :: "rat \<Rightarrow> int" where
  "round_half_even y =
     (let f = \<lfloor>y\<rfloor>; r = y - of_int f
      in if r < 1 / 2 then f else if 1 / 2 < r then f + 1 else if even f then f else f + 1)"

definition binade :: "rat \<Rightarrow> int" where
  "binade x = (if 1 \<le> x then bitlen \<lfloor>x\<rfloor> - 1 else - bitlen (\<lceil>1 / x\<rceil> - 1))"

definition double_round :: "rat \<Rightarrow> rat" where
  "double_round x =
     (if x = 0 then 0
      else let k = binade \<bar>x\<bar> - 52
           in sgn x * of_int (round_half_even (\<bar>x\<bar> / 2 powi k)) * 2 powi k)"

text \<open>\<^verbatim>\<open>int(x)\<close> on a float: truncation toward zero.\<close>

definition py_int :: "rat \<Rightarrow> int" where
  "py_int q = (if 0 \<le> q then \<lfloor>q\<rfloor> else \<lceil>q\<rceil>)"

text \<open>\<^verbatim>\<open>timedelta.total_seconds()\<close> of a difference of \<open>us\<close> microseconds: the
  integer division \<^verbatim>\<open>us / 10**6\<close>, rounded once.\<close>

definition total_seconds :: "int \<Rightarrow> rat" where
  "total_seconds us = double_round (of_int us / 1000000)"

text \<open>\<^verbatim>\<open>td.total_seconds() / 3600\<close>: a second division, rounded again.\<close>

definition hours_of :: "int \<Rightarrow> rat" where
  "hours_of us = double_round (total_seconds us / 3600)"

section \<open>Priority calculator (repositories/waiting_list.py, calculate_priority_score)\<close>

text \<open>\<^verbatim>\<open>int((datetime.now() - created_at).total_seconds() / 3600)\<close>.\<close>

definition waiting_time_bonus :: "datetime \<Rightarrow> datetime \<Rightarrow> int" where
  "waiting_time_bonus now created = py_int (hours_of (now - created))"

text \<open>The join of Subscription and Plan filtered on the member and on ACTIVE.\<close>

definition active_subscriptions :: "database \<Rightarrow> ident \<Rightarrow> (Subscription \<times> Plan) list" where
  "active_subscriptions db mid =
     concat (map (\<lambda>s. map (\<lambda>p. (s, p)) (filter (\<lambda>p. plan_id p = sub_plan_id s) (plans_tbl db)))
                 (filter (\<lambda>s. sub_member_id s = mid \<and> sub_status s = ACTIVE) (subscriptions_tbl db)))"

definition base_score :: "database \<Rightarrow> ident \<Rightarrow> int" where
  "base_score db mid =
     (case first (active_subscriptions db mid) of
        None \<Rightarrow> 0
      | Some sub \<Rightarrow> if plan_type (snd sub) = VIP then 1000 else 100)"

text \<open>\<open>now\<close> is the reading of the clock inside the calculator (line 60).\<close>

definition calculate_priority_score :: "database \<Rightarrow> ident \<Rightarrow> datetime \<Rightarrow> datetime \<Rightarrow> int" where
  "calculate_priority_score db mid created now =
     base_score db mid + waiting_time_bonus now created"

section \<open>Queue engine (repositories/waiting_list.py)\<close>

subsection \<open>add_to_waiting_list\<close>

text \<open>One pass of the first loop (lines 141 to 148).\<close>

definition insertion_step :: "int \<Rightarrow> datetime \<Rightarrow> WaitingList \<Rightarrow> int \<Rightarrow> int" where
  "insertion_step score now entry final_position =
     (if score > priority_score entry then min final_position (position entry)
      else if score = priority_score entry then
        (if now < created_at entry then min final_position (position entry)
         else final_position)
      else final_position)"

text \<open>One pass of the second loop (lines 151 to 153), on any row of the table: the rows
  of \<^verbatim>\<open>waiting_entries\<close> are the WAITING rows of the session.\<close>

definition shift_entry :: "ident \<Rightarrow> int \<Rightarrow> WaitingList \<Rightarrow> WaitingList" where
  "shift_entry sid final_position entry =
     (if is_waiting sid entry \<and> position entry \<ge> final_position
      then entry\<lparr>position := position entry + 1\<rparr> else entry)"

text \<open>
  \<open>now\<close> is the clock reading of line 125, \<open>now'\<close> the later reading inside the
  calculator, \<open>new_id\<close> the value of \<^verbatim>\<open>_id15()\<close>. The result is the raised exception
  or the returned object, with the database after the call: every exception goes through
  \<^verbatim>\<open>session.rollback()\<close>, so it leaves the database as it was. A primary key that is
  already taken fails the commit. The object is returned after the commit and outside the
  \<^verbatim>\<open>with\<close> block, so the caller gets it detached: the new row is in the table, and
  nothing of it can be read from the returned object.
\<close>

definition add_to_waiting_list ::
  "database \<Rightarrow> ident \<Rightarrow> ident \<Rightarrow> datetime \<Rightarrow> datetime \<Rightarrow> ident
     \<Rightarrow> (error + WaitingList orm_instance) \<times> database" where
  "add_to_waiting_list db sid mid now now' new_id =
     (case first (filter (\<lambda>c. cs_id c = sid) (class_session_tbl db)) of
        None \<Rightarrow> (Inl (NotFoundError ''Class session not found''), db)
      | Some cs \<Rightarrow>
          if cs_status cs = CLOSED
          then (Inl (AppError ''Session registration is closed''), db)
          else if first (filter (\<lambda>m. m_id m = mid) (members_tbl db)) = None
          then (Inl (NotFoundError ''Member not found''), db)
          else if first (filter (\<lambda>e. en_class_session_id e = sid \<and> en_member_id e = mid
                                     \<and> en_status e = REGISTERED) (enrollment_tbl db)) \<noteq> None
          then (Inl (DuplicateError ''Member is already enrolled in this session''), db)
          else if first (filter (\<lambda>e. class_session_id e = sid \<and> member_id e = mid
                                     \<and> status e \<in> {WAITING, ASSIGNED}) (waiting_list_tbl db)) \<noteq> None
          then (Inl (DuplicateError ''Member is already on the waiting list''), db)
          else
            let pos = int (length (waiting_entries (waiting_list_tbl db) sid)) + 1;
                score = calculate_priority_score db mid now now';
                entries = waiting_entries (waiting_list_tbl db) sid;
                final_position = fold (insertion_step score now) entries pos;
                shifted = map (shift_entry sid final_position) (waiting_list_tbl db);
                wl_entry = \<lparr> wl_id = new_id, class_session_id = sid, member_id = mid,
                             status = WAITING, position = final_position,
                             priority_score = score, approval_deadline = None,
                             created_at = now, assigned_at = None, confirmed_at = None,
                             cancelled_at = None \<rparr>
            in if new_id \<in> set (map wl_id (waiting_list_tbl db))
               then (Inl IntegrityError, db)
               else (Inr Detached, db\<lparr>waiting_list_tbl := shifted @ [wl_entry]\<rparr>))"

subsection \<open>promote_from_queue\<close>

text \<open>\<^verbatim>\<open>order_by(WaitingList.position.asc())\<close>; rows of equal position keep their
  storage order.\<close>

definition order_by_position :: "WaitingList list \<Rightarrow> WaitingList list" where
  "order_by_position rows = sort_key position rows"

text \<open>Lines 203 to 205, on the row whose primary key is that of \<^verbatim>\<open>first_entry\<close>.\<close>

definition assign_entry :: "ident \<Rightarrow> datetime \<Rightarrow> datetime \<Rightarrow> WaitingList \<Rightarrow> WaitingList" where
  "assign_entry first_id now deadline entry =
     (if wl_id entry = first_id
      then entry\<lparr>status := ASSIGNED, assigned_at := Some now, approval_deadline := Some deadline\<rparr>
      else entry)"

text \<open>Lines 208 to 219: the query for the remaining rows and the loop over them.\<close>

definition close_gap :: "ident \<Rightarrow> ident \<Rightarrow> WaitingList \<Rightarrow> WaitingList" where
  "close_gap sid first_id entry =
     (if is_waiting sid entry \<and> wl_id entry \<noteq> first_id
      then entry\<lparr>position := max 1 (position entry - 1)\<rparr> else entry)"

text \<open>\<open>hours\<close> is \<^verbatim>\<open>approval_deadline_hours\<close>, \<open>now\<close> the clock reading of line 200.
  The result is the returned entry (None on an empty queue) and the database after. The
  returned object is detached like the one of \<^verbatim>\<open>add_to_waiting_list\<close>; \<open>Some\<close> carries
  the row it stands for, which no caller reads.\<close>

definition promote_from_queue ::
  "database \<Rightarrow> ident \<Rightarrow> int \<Rightarrow> datetime \<Rightarrow> WaitingList option \<times> database" where
  "promote_from_queue db sid hours now =
     (case first (order_by_position (waiting_entries (waiting_list_tbl db) sid)) of
        None \<Rightarrow> (None, db)
      | Some first_entry \<Rightarrow>
          let deadline = now + timedelta_hours hours;
              assigned = map (assign_entry (wl_id first_entry) now deadline) (waiting_list_tbl db);
              closed = map (close_gap sid (wl_id first_entry)) assigned
          in (Some (assign_entry (wl_id first_entry) now deadline first_entry),
              db\<lparr>waiting_list_tbl := closed\<rparr>))"

text \<open>The default of the parameter \<^verbatim>\<open>approval_deadline_hours\<close>; every caller in the
  repository uses it.\<close>

definition approval_deadline_hours_default :: int where
  "approval_deadline_hours_default = 24"

subsection \<open>confirm_assignment\<close>

definition set_status :: "ident \<Rightarrow> WaitingListStatus \<Rightarrow> WaitingList \<Rightarrow> WaitingList" where
  "set_status wid st entry = (if wl_id entry = wid then entry\<lparr>status := st\<rparr> else entry)"

definition deadline_passed_msg :: string where
  "deadline_passed_msg = ''Approval deadline has passed. Spot has been given to next in queue.''"

text \<open>
  \<open>now\<close> is the clock reading of line 243, \<open>now_promote\<close> the one inside the nested
  \<^verbatim>\<open>promote_from_queue\<close>, \<open>now_enrol\<close> and \<open>now_confirm\<close> those of lines 257 and 266,
  \<open>new_id\<close> the value of \<^verbatim>\<open>_id15()\<close>. In the expired branch the status is committed
  before the exception is raised, so the later rollback undoes nothing.
\<close>

definition confirm_assignment ::
  "database \<Rightarrow> ident \<Rightarrow> datetime \<Rightarrow> datetime \<Rightarrow> datetime \<Rightarrow> datetime \<Rightarrow> ident
     \<Rightarrow> (error + Enrollment) \<times> database" where
  "confirm_assignment db wid now now_promote now_enrol now_confirm new_id =
     (case first (filter (\<lambda>e. wl_id e = wid) (waiting_list_tbl db)) of
        None \<Rightarrow> (Inl (NotFoundError ''Waiting list entry not found''), db)
      | Some wl_entry \<Rightarrow>
          if status wl_entry \<noteq> ASSIGNED
          then (Inl (AppError ''Waiting list entry is not in ASSIGNED status''), db)
          else if (case approval_deadline wl_entry of None \<Rightarrow> False | Some d \<Rightarrow> now > d)
          then
            let db1 = db\<lparr>waiting_list_tbl := map (set_status wid EXPIRED) (waiting_list_tbl db)\<rparr>;
                db2 = snd (promote_from_queue db1 (class_session_id wl_entry)
                             approval_deadline_hours_default now_promote)
            in (Inl (AppError deadline_passed_msg), db2)
          else
            let enrollment = \<lparr> en_id = new_id, en_class_session_id = class_session_id wl_entry,
                               en_member_id = member_id wl_entry, en_status = REGISTERED,
                               en_created_at = now_enrol, canceled_at = None,
                               cancel_reason = None \<rparr>;
                confirmed = map (\<lambda>e. if wl_id e = wid
                                      then e\<lparr>status := CONFIRMED, confirmed_at := Some now_confirm\<rparr>
                                      else e) (waiting_list_tbl db)
            in if new_id \<in> set (map en_id (enrollment_tbl db))
               then (Inl IntegrityError, db)
               else (Inr enrollment,
                     db\<lparr>enrollment_tbl := enrollment_tbl db @ [enrollment],
                        waiting_list_tbl := confirmed\<rparr>))"

subsection \<open>check_expired_assignments\<close>

text \<open>The loop of lines 298 to 301. Each nested \<^verbatim>\<open>promote_from_queue\<close> runs in a
  session of its own and commits; \<open>clk k\<close> is the clock reading of the promotion for the
  \<open>k\<close>-th expired row.\<close>

fun promote_each :: "database \<Rightarrow> (nat \<Rightarrow> datetime) \<Rightarrow> WaitingList list \<Rightarrow> database" where
  "promote_each db clk [] = db"
| "promote_each db clk (entry # rest) =
     promote_each (snd (promote_from_queue db (class_session_id entry)
                          approval_deadline_hours_default (clk 0)))
                  (\<lambda>k. clk (Suc k)) rest"

text \<open>
  \<open>scope\<close> is the optional \<^verbatim>\<open>class_session_id\<close>: None and the empty string do not
  restrict the query. A NULL deadline never compares below \<open>now\<close>. The status writes of
  the outer session reach the database at its commit, after the promotions.
\<close>

definition check_expired_assignments ::
  "database \<Rightarrow> ident option \<Rightarrow> datetime \<Rightarrow> (nat \<Rightarrow> datetime) \<Rightarrow> nat \<times> database" where
  "check_expired_assignments db scope now clk =
     (let expired = filter (\<lambda>e. status e = ASSIGNED
                               \<and> (case approval_deadline e of None \<Rightarrow> False | Some d \<Rightarrow> d < now)
                               \<and> (case scope of None \<Rightarrow> True
                                  | Some sid \<Rightarrow> sid = [] \<or> class_session_id e = sid))
                           (waiting_list_tbl db);
          db1 = promote_each db clk expired;
          db2 = db1\<lparr>waiting_list_tbl :=
                       map (\<lambda>e. if wl_id e \<in> set (map wl_id expired) then e\<lparr>status := EXPIRED\<rparr> else e)
                           (waiting_list_tbl db1)\<rparr>
      in (length expired, db2))"

subsection \<open>get_waiting_list\<close>

text \<open>One dictionary of the returned list. The three timestamps are kept as values
  (the source renders them with \<^verbatim>\<open>isoformat\<close>); \<open>waiting_hours\<close> is the double
  \<^verbatim>\<open>(datetime.now() - wl.created_at).total_seconds() / 3600\<close>. The column
  \<open>created_at\<close> is not nullable, so the branches of the source for a missing value are
  never taken.\<close>

record waiting_list_row =
  row_id :: ident
  row_member_id :: ident
  row_member_name :: string
  row_position :: int
  row_status :: WaitingListStatus
  row_priority_score :: int
  row_created_at :: datetime
  row_assigned_at :: "datetime option"
  row_approval_deadline :: "datetime option"
  row_waiting_hours :: rat

definition to_row :: "datetime \<Rightarrow> WaitingList \<times> Member \<Rightarrow> waiting_list_row" where
  "to_row now r =
     (case r of (wl, m) \<Rightarrow>
        \<lparr> row_id = wl_id wl, row_member_id = member_id wl, row_member_name = fullname m,
          row_position = position wl, row_status = status wl,
          row_priority_score = priority_score wl, row_created_at = created_at wl,
          row_assigned_at = assigned_at wl, row_approval_deadline = approval_deadline wl,
          row_waiting_hours = hours_of (now - created_at wl) \<rparr>)"

text \<open>The list comprehension reads the clock once for each row: \<open>clk k\<close> is the reading
  for the row of index \<open>k\<close>. \<^verbatim>\<open>ORDER BY position\<close> is a stable sort of the join here;
  the database may return rows of equal position in any order.\<close>

definition get_waiting_list :: "database \<Rightarrow> ident \<Rightarrow> (nat \<Rightarrow> datetime) \<Rightarrow> waiting_list_row list" where
  "get_waiting_list db sid clk =
     (let joined = concat (map (\<lambda>wl. map (\<lambda>m. (wl, m))
                                         (filter (\<lambda>m. m_id m = member_id wl) (members_tbl db)))
                               (filter (\<lambda>wl. class_session_id wl = sid) (waiting_list_tbl db)));
          entries = sort_key (\<lambda>r. position (fst r)) joined
      in map (\<lambda>kr. to_row (clk (fst kr)) (snd kr)) (enumerate 0 entries))"

section \<open>Service layer (services/waiting_list_service.py)\<close>

text \<open>The methods that class \<^verbatim>\<open>db_waiting_list\<close> defines. The class has no
  \<^verbatim>\<open>__getattr__\<close>, so looking up any other name raises AttributeError.\<close>

datatype repo_method =
    Calculate_priority_score | Add_to_waiting_list | Promote_from_queue | Confirm_assignment
  | Check_expired_assignments | Get_waiting_list | Detect_high_demand

definition db_waiting_list_getattr :: "string \<Rightarrow> repo_method option" where
  "db_waiting_list_getattr =
     map_of [(''calculate_priority_score'', Calculate_priority_score),
             (''add_to_waiting_list'', Add_to_waiting_list),
             (''promote_from_queue'', Promote_from_queue),
             (''confirm_assignment'', Confirm_assignment),
             (''check_expired_assignments'', Check_expired_assignments),
             (''get_waiting_list'', Get_waiting_list),
             (''detect_high_demand'', Detect_high_demand)]"

text \<open>\<^verbatim>\<open>WaitingListService.check_expired_assignments\<close>, line 114:
  \<^verbatim>\<open>return self.waiting_list_repo.expire_assignments(session_id)\<close>. The attribute is
  looked up before anything is called.\<close>

definition service_check_expired_assignments ::
  "database \<Rightarrow> ident option \<Rightarrow> datetime \<Rightarrow> (nat \<Rightarrow> datetime) \<Rightarrow> (error + nat) \<times> database" where
  "service_check_expired_assignments db session_id now clk =
     (case db_waiting_list_getattr ''expire_assignments'' of
        Some Check_expired_assignments \<Rightarrow>
          (case check_expired_assignments db session_id now clk of (n, db') \<Rightarrow> (Inr n, db'))
      | _ \<Rightarrow> (Inl (AttributeError ''expire_assignments''), db))"

section \<open>The dense-position invariant\<close>

text \<open>The positions of the WAITING rows of a session, and the invariant: no duplicates,
  and exactly the values 1 to N, N the number of WAITING rows.\<close>

definition waiting_positions :: "WaitingList list \<Rightarrow> ident \<Rightarrow> int list" where
  "waiting_positions tbl sid = map position (waiting_entries tbl sid)"

definition dense_positions :: "int list \<Rightarrow> bool" where
  "dense_positions ps \<longleftrightarrow> distinct ps \<and> set ps = {1 .. int (length ps)}"

definition dense :: "WaitingList list \<Rightarrow> ident \<Rightarrow> bool" where
  "dense tbl sid \<longleftrightarrow> dense_positions (waiting_positions tbl sid)"

text \<open>Primary keys are unique.\<close>

definition unique_ids :: "WaitingList list \<Rightarrow> bool" where
  "unique_ids tbl \<longleftrightarrow> distinct (map wl_id tbl)"

section \<open>Notions used in the statements\<close>

text \<open>The test of the first loop of \<^verbatim>\<open>add_to_waiting_list\<close>: the new entry, of score
  \<open>score\<close> and created at \<open>now\<close>, goes before the existing entry \<open>e\<close>.\<close>

definition outranks :: "int \<Rightarrow> datetime \<Rightarrow> WaitingList \<Rightarrow> bool" where
  "outranks score now e \<longleftrightarrow>
     score > priority_score e \<or> (score = priority_score e \<and> now < created_at e)"

text \<open>The value of \<^verbatim>\<open>final_position\<close> after the first loop.\<close>

definition final_position_of :: "database \<Rightarrow> ident \<Rightarrow> int \<Rightarrow> datetime \<Rightarrow> int" where
  "final_position_of db sid score now =
     fold (insertion_step score now) (waiting_entries (waiting_list_tbl db) sid)
          (int (length (waiting_entries (waiting_list_tbl db) sid)) + 1)"

text \<open>The row \<^verbatim>\<open>wl_entry\<close> as \<^verbatim>\<open>add_to_waiting_list\<close> commits it.\<close>

definition wl_entry_of :: "database \<Rightarrow> ident \<Rightarrow> ident \<Rightarrow> datetime \<Rightarrow> datetime \<Rightarrow> ident \<Rightarrow> WaitingList" where
  "wl_entry_of db sid mid now now' nid =
     \<lparr> wl_id = nid, class_session_id = sid, member_id = mid, status = WAITING,
       position = final_position_of db sid (calculate_priority_score db mid now now') now,
       priority_score = calculate_priority_score db mid now now',
       approval_deadline = None, created_at = now, assigned_at = None,
       confirmed_at = None, cancelled_at = None \<rparr>"

text \<open>The whole hours in a difference of \<open>d\<close> microseconds, counted toward zero.\<close>

definition whole_hours :: "int \<Rightarrow> int" where
  "whole_hours d = (if 0 \<le> d then d div 3600000000 else - ((- d) div 3600000000))"

text \<open>What \<^verbatim>\<open>promote_from_queue\<close> does to one row: both of its writes in turn.\<close>

definition promote_row :: "ident \<Rightarrow> ident \<Rightarrow> datetime \<Rightarrow> datetime \<Rightarrow> WaitingList \<Rightarrow> WaitingList" where
  "promote_row sid fid now deadline e = close_gap sid fid (assign_entry fid now deadline e)"

text \<open>The five failure conditions of \<^verbatim>\<open>add_to_waiting_list\<close>, on the tables.\<close>

definition find_session :: "database \<Rightarrow> ident \<Rightarrow> ClassSession option" where
  "find_session db sid = first (filter (\<lambda>c. cs_id c = sid) (class_session_tbl db))"

definition session_missing :: "database \<Rightarrow> ident \<Rightarrow> bool" where
  "session_missing db sid \<longleftrightarrow> sid \<notin> set (map cs_id (class_session_tbl db))"

definition registration_closed :: "database \<Rightarrow> ident \<Rightarrow> bool" where
  "registration_closed db sid \<longleftrightarrow>
     (case find_session db sid of None \<Rightarrow> False | Some cs \<Rightarrow> cs_status cs = CLOSED)"

definition member_missing :: "database \<Rightarrow> ident \<Rightarrow> bool" where
  "member_missing db mid \<longleftrightarrow> mid \<notin> set (map m_id (members_tbl db))"

definition already_enrolled :: "database \<Rightarrow> ident \<Rightarrow> ident \<Rightarrow> bool" where
  "already_enrolled db sid mid \<longleftrightarrow>
     (\<exists>e\<in>set (enrollment_tbl db).
        en_class_session_id e = sid \<and> en_member_id e = mid \<and> en_status e = REGISTERED)"

definition already_queued :: "database \<Rightarrow> ident \<Rightarrow> ident \<Rightarrow> bool" where
  "already_queued db sid mid \<longleftrightarrow>
     (\<exists>e\<in>set (waiting_list_tbl db).
        class_session_id e = sid \<and> member_id e = mid \<and> status e \<in> {WAITING, ASSIGNED})"

text \<open>The rows that are ASSIGNED in the table \<open>tbl'\<close> and whose key was not that of an
  ASSIGNED row of \<open>tbl\<close>: those that became ASSIGNED in between.\<close>

definition newly_assigned :: "WaitingList list \<Rightarrow> WaitingList list \<Rightarrow> WaitingList list" where
  "newly_assigned tbl tbl' =
     filter (\<lambda>e. status e = ASSIGNED
                  \<and> wl_id e \<notin> set (map wl_id (filter (\<lambda>x. status x = ASSIGNED) tbl))) tbl'"

text \<open>The ASSIGNED rows of a session: the open holds.\<close>

definition assigned_entries :: "WaitingList list \<Rightarrow> ident \<Rightarrow> WaitingList list" where
  "assigned_entries tbl sid = filter (\<lambda>e. class_session_id e = sid \<and> status e = ASSIGNED) tbl"



section \<open>Example data\<close>

definition ex_entry ::
  "ident \<Rightarrow> ident \<Rightarrow> ident \<Rightarrow> WaitingListStatus \<Rightarrow> int \<Rightarrow> int \<Rightarrow> datetime \<Rightarrow> WaitingList" where
  "ex_entry i sid mid st pos score created =
     \<lparr> wl_id = i, class_session_id = sid, member_id = mid, status = st, position = pos,
       priority_score = score, approval_deadline = None, created_at = created,
       assigned_at = None, confirmed_at = None, cancelled_at = None \<rparr>"

text \<open>One full session with two members waiting: the VIP member first, then the member
  on a monthly plan. A third member has no subscription.\<close>

definition ex_db :: database where
  "ex_db = \<lparr> class_session_tbl = [\<lparr> cs_id = ''S'', cs_status = FULL \<rparr>],
             members_tbl = [\<lparr> m_id = ''m1'', fullname = ''Ann'' \<rparr>,
                            \<lparr> m_id = ''m2'', fullname = ''Bob'' \<rparr>,
                            \<lparr> m_id = ''m3'', fullname = ''Cy'' \<rparr>],
             plans_tbl = [\<lparr> plan_id = ''p1'', plan_type = MONTHLY \<rparr>,
                          \<lparr> plan_id = ''p2'', plan_type = VIP \<rparr>],
             subscriptions_tbl =
               [\<lparr> sub_id = ''s1'', sub_member_id = ''m1'', sub_plan_id = ''p1'', sub_status = ACTIVE \<rparr>,
                \<lparr> sub_id = ''s2'', sub_member_id = ''m2'', sub_plan_id = ''p2'', sub_status = ACTIVE \<rparr>],
             enrollment_tbl = [],
             waiting_list_tbl =
               [ex_entry ''w1'' ''S'' ''m1'' WAITING 2 100 10,
                ex_entry ''w2'' ''S'' ''m2'' WAITING 1 1000 20] \<rparr>"

text \<open>The example after a promotion at time 30 with the default hold: the VIP member
  holds the spot until 86400000030, the other member is first in the queue.\<close>

definition ex_db_held :: database where
  "ex_db_held = ex_db\<lparr>waiting_list_tbl :=
     [ex_entry ''w1'' ''S'' ''m1'' WAITING 1 100 10,
      (ex_entry ''w2'' ''S'' ''m2'' ASSIGNED 1 1000 20)
        \<lparr>assigned_at := Some 30, approval_deadline := Some 86400000030\<rparr>]\<rparr>"

text \<open>The example before the VIP member joined: one member waiting.\<close>

definition ex_db_one :: database where
  "ex_db_one = ex_db\<lparr>waiting_list_tbl := [ex_entry ''w1'' ''S'' ''m1'' WAITING 1 100 10]\<rparr>"

text \<open>The example with a third subscription: the third member is on the VIP plan, but
  the subscription is frozen.\<close>

definition ex_db_frozen :: database where
  "ex_db_frozen = ex_db_one\<lparr>subscriptions_tbl :=
     [\<lparr> sub_id = ''s1'', sub_member_id = ''m1'', sub_plan_id = ''p1'', sub_status = ACTIVE \<rparr>,
      \<lparr> sub_id = ''s2'', sub_member_id = ''m2'', sub_plan_id = ''p2'', sub_status = ACTIVE \<rparr>,
      \<lparr> sub_id = ''s3'', sub_member_id = ''m3'', sub_plan_id = ''p2'', sub_status = FROZEN \<rparr>]\<rparr>"

text \<open>The first member joined without a subscription: the entry was stored with score 0.
  Only the VIP member has a subscription.\<close>

definition ex_db_lapsed :: database where
  "ex_db_lapsed = ex_db\<lparr>subscriptions_tbl :=
       [\<lparr> sub_id = ''s2'', sub_member_id = ''m2'', sub_plan_id = ''p2'', sub_status = ACTIVE \<rparr>],
     waiting_list_tbl := [ex_entry ''w1'' ''S'' ''m1'' WAITING 1 0 10]\<rparr>"


section \<open>Rounding to a double\<close>

lemma round_half_even_error: "\<bar>of_int (round_half_even y) - y\<bar> \<le> 1 / 2"
proof -
  have "of_int \<lfloor>y\<rfloor> \<le> y" "y < of_int \<lfloor>y\<rfloor> + 1" by linarith+
  then show ?thesis by (auto simp: round_half_even_def Let_def)
qed

lemma round_half_even_ge: "of_int N \<le> y \<Longrightarrow> N \<le> round_half_even y"
proof -
  assume "of_int N \<le> y"
  then have "N \<le> \<lfloor>y\<rfloor>" by (simp add: le_floor_iff)
  then show ?thesis by (auto simp: round_half_even_def Let_def)
qed

lemma binade_bounds:
  assumes "0 < x"
  shows "2 powi binade x \<le> x" and "x < 2 powi (binade x + 1)"
proof -
  have "2 powi binade x \<le> x \<and> x < 2 powi (binade x + 1)"
  proof (cases "1 \<le> x")
    case True
    let ?n = "\<lfloor>x\<rfloor>"
    have n: "0 < ?n" using True by simp
    from bitlen_bounds[OF n] have b: "2 ^ nat (bitlen ?n - 1) \<le> ?n" "?n < 2 ^ nat (bitlen ?n)"
      by simp_all
    have b1: "1 \<le> bitlen ?n" using n by (simp add: bitlen_alt_def)
    have "(of_int (2 ^ nat (bitlen ?n - 1)) :: rat) \<le> of_int ?n" using b(1) by (rule of_int_le_iff[THEN iffD2])
    also have "of_int ?n \<le> x" by (rule of_int_floor_le)
    finally have l: "(2 :: rat) ^ nat (bitlen ?n - 1) \<le> x" by simp
    have "?n + 1 \<le> 2 ^ nat (bitlen ?n)" using b(2) by simp
    then have "(of_int (?n + 1) :: rat) \<le> of_int (2 ^ nat (bitlen ?n))" by (rule of_int_le_iff[THEN iffD2])
    moreover have "x < of_int (?n + 1)" by linarith
    ultimately have "x < (of_int (2 ^ nat (bitlen ?n)) :: rat)" by linarith
    then have u: "x < (2 :: rat) ^ nat (bitlen ?n)" by simp
    have "binade x = bitlen ?n - 1" using True by (simp add: binade_def)
    then show ?thesis using l u b1 by (simp add: power_int_def)
  next
    case False
    let ?y = "1 / x"
    let ?n = "\<lceil>?y\<rceil> - 1"
    have y1: "1 < ?y" using False assms by simp
    then have "2 \<le> \<lceil>?y\<rceil>" by linarith
    then have n: "0 < ?n" by simp
    from bitlen_bounds[OF n] have b: "2 ^ nat (bitlen ?n - 1) \<le> ?n" "?n < 2 ^ nat (bitlen ?n)"
      by simp_all
    have b1: "1 \<le> bitlen ?n" using n by (simp add: bitlen_alt_def)
    have ny: "of_int ?n < ?y" "?y \<le> of_int ?n + 1" by linarith+
    have "(of_int (2 ^ nat (bitlen ?n - 1)) :: rat) \<le> of_int ?n" using b(1) by (rule of_int_le_iff[THEN iffD2])
    then have "(of_int (2 ^ nat (bitlen ?n - 1)) :: rat) < ?y" using ny(1) by (rule le_less_trans)
    then have l: "(2 :: rat) ^ nat (bitlen ?n - 1) < ?y" by simp
    have "?n + 1 \<le> 2 ^ nat (bitlen ?n)" using b(2) by simp
    then have "(of_int (?n + 1) :: rat) \<le> of_int (2 ^ nat (bitlen ?n))" by (rule of_int_le_iff[THEN iffD2])
    moreover have "?y \<le> of_int (?n + 1)" using ny(2) by simp
    ultimately have "?y \<le> (of_int (2 ^ nat (bitlen ?n)) :: rat)" by linarith
    then have u: "?y \<le> (2 :: rat) ^ nat (bitlen ?n)" by simp
    have e: "binade x = - bitlen ?n" using False by (simp add: binade_def)
    have p1: "(2 :: rat) powi (- bitlen ?n) = 1 / 2 ^ nat (bitlen ?n)"
      using b1 by (simp add: power_int_def divide_simps)
    have p2: "(2 :: rat) powi (- bitlen ?n + 1) = 1 / 2 ^ nat (bitlen ?n - 1)"
      using b1 by (simp add: power_int_def divide_simps)
    have "1 / 2 ^ nat (bitlen ?n) \<le> x"
      using u assms by (simp add: divide_simps mult.commute)
    moreover have "x < 1 / 2 ^ nat (bitlen ?n - 1)"
      using l assms by (simp add: divide_simps mult.commute)
    ultimately show ?thesis unfolding e p1 p2 by simp
  qed
  then show "2 powi binade x \<le> x" and "x < 2 powi (binade x + 1)" by simp_all
qed

lemma double_round_zero [simp]: "double_round 0 = 0"
  by (simp add: double_round_def)

lemma double_round_minus: "double_round (- x) = - double_round x"
  by (simp add: double_round_def Let_def)

lemma double_round_pos:
  "0 < x \<Longrightarrow> double_round x
     = of_int (round_half_even (x / 2 powi (binade x - 52))) * 2 powi (binade x - 52)"
  by (simp add: double_round_def Let_def)

lemma double_round_error_pos:
  assumes "0 < x"
  shows "\<bar>double_round x - x\<bar> \<le> x / 2 ^ 53"
proof -
  define k where "k = binade x - 52"
  define p :: rat where "p = 2 powi k"
  define y where "y = x / p"
  have p: "0 < p" by (simp add: p_def)
  have "2 powi (k + 52) \<le> x" using binade_bounds(1)[OF assms] by (simp add: k_def)
  then have px: "p * 2 ^ 52 \<le> x" by (simp add: p_def power_int_add)
  have xy: "x = y * p" using p by (simp add: y_def)
  have d: "double_round x = of_int (round_half_even y) * p"
    using double_round_pos[OF assms] by (simp add: k_def p_def y_def)
  have "(of_int (round_half_even y) - y) * p = of_int (round_half_even y) * p - y * p"
    by (simp add: algebra_simps)
  also have "\<dots> = double_round x - x" by (simp only: d xy[symmetric])
  finally have "double_round x - x = (of_int (round_half_even y) - y) * p" by simp
  then have "\<bar>double_round x - x\<bar> = \<bar>of_int (round_half_even y) - y\<bar> * p"
    using p by (simp add: abs_mult)
  also have "\<dots> \<le> (1 / 2) * p"
    using round_half_even_error[of y] p by (intro mult_right_mono) simp_all
  also have "\<dots> \<le> x / 2 ^ 53" using px by simp
  finally show ?thesis .
qed

lemma double_round_error: "\<bar>double_round x - x\<bar> \<le> \<bar>x\<bar> / 2 ^ 53"
proof (cases "0 < x")
  case True
  then show ?thesis using double_round_error_pos[OF True] by simp
next
  case False
  show ?thesis
  proof (cases "x = 0")
    case True
    then show ?thesis by simp
  next
    case False
    then have n: "0 < - x" using \<open>\<not> 0 < x\<close> by simp
    have "double_round x - x = - (double_round (- x) - (- x))"
      by (simp add: double_round_minus)
    then have "\<bar>double_round x - x\<bar> = \<bar>double_round (- x) - (- x)\<bar>" by simp
    then show ?thesis using double_round_error_pos[OF n] n by simp
  qed
qed

lemma double_round_ge_int:
  assumes "0 < x" "of_int N \<le> x" "N \<le> 2 ^ 53"
  shows "of_int N \<le> double_round x"
proof -
  define k where "k = binade x - 52"
  define y where "y = x / 2 powi k"
  have d: "double_round x = of_int (round_half_even y) * 2 powi k"
    using double_round_pos[OF assms(1)] by (simp add: k_def y_def)
  have bl: "2 powi (k + 52) \<le> x" using binade_bounds(1)[OF assms(1)] by (simp add: k_def)
  show ?thesis
  proof (cases "k \<le> 0")
    case True
    define m where "m = nat (- k)"
    have pk: "(2 :: rat) powi k = 1 / 2 ^ m" using True by (auto simp: power_int_def m_def divide_simps)
    have "of_int (N * 2 ^ m) \<le> y" using assms(2) by (simp add: y_def pk)
    then have "N * 2 ^ m \<le> round_half_even y" by (rule round_half_even_ge)
    then have "(of_int (N * 2 ^ m) :: rat) \<le> of_int (round_half_even y)" by (rule of_int_le_iff[THEN iffD2])
    then have "of_int N * 2 ^ m \<le> (of_int (round_half_even y) :: rat)" by simp
    then show ?thesis unfolding d pk by (simp add: divide_simps)
  next
    case False
    define m where "m = nat k"
    have m: "1 \<le> m" using False by (simp add: m_def)
    have pk: "(2 :: rat) powi k = 2 ^ m" using False by (simp add: power_int_def m_def)
    have "2 ^ m * 2 ^ 52 \<le> x" using bl by (simp add: power_int_add pk)
    then have "of_int (2 ^ 52) \<le> y" by (simp add: y_def pk divide_simps mult.commute)
    then have "2 ^ 52 \<le> round_half_even y" by (rule round_half_even_ge)
    then have r: "(2 ^ 52 :: rat) \<le> of_int (round_half_even y)"
      using of_int_le_iff[of "2 ^ 52" "round_half_even y", where ?'a = rat] by simp
    have "(2 :: rat) ^ 1 \<le> 2 ^ m" using m by (intro power_increasing) simp_all
    then have "(2 :: rat) \<le> 2 ^ m" by simp
    then have "(2 ^ 52 :: rat) * 2 \<le> of_int (round_half_even y) * 2 ^ m"
      using r by (intro mult_mono) simp_all
    moreover have "(of_int N :: rat) \<le> 2 ^ 53"
      using assms(3) of_int_le_iff[of N "2 ^ 53", where ?'a = rat] by simp
    ultimately show ?thesis unfolding d pk by simp
  qed
qed

lemma double_round_nonneg: "0 \<le> x \<Longrightarrow> 0 \<le> double_round x"
  using double_round_ge_int[of x 0] by (cases "x = 0") simp_all

section \<open>Hours of a timedelta\<close>

lemma py_int_minus: "py_int (- q) = - py_int q"
  by (auto simp: py_int_def ceiling_def)

lemma hours_of_minus: "hours_of (- d) = - hours_of d"
  by (simp add: hours_of_def total_seconds_def double_round_minus)

lemma hours_of_zero [simp]: "hours_of 0 = 0"
  by (simp add: hours_of_def total_seconds_def)

lemma double_round_le:
  assumes "0 \<le> x"
  shows "double_round x \<le> x * (9007199254740993 / 9007199254740992)"
proof -
  have "double_round x - x \<le> \<bar>double_round x - x\<bar>" by (rule abs_ge_self)
  also have "\<dots> \<le> \<bar>x\<bar> / 2 ^ 53" by (rule double_round_error)
  also have "\<dots> = x / 9007199254740992" using assms by simp
  finally show ?thesis by linarith
qed

lemma hours_of_upper:
  assumes "0 \<le> d"
  shows "0 \<le> total_seconds d" "0 \<le> hours_of d"
    and "hours_of d \<le> of_int d * (9007199254740993 / 9007199254740992)
                           * (9007199254740993 / 9007199254740992) / 3600000000"
proof -
  let ?a = "of_int d / 1000000 :: rat"
  have a: "0 \<le> ?a" using assms by simp
  show s0: "0 \<le> total_seconds d" unfolding total_seconds_def using a by (rule double_round_nonneg)
  then have s3: "0 \<le> total_seconds d / 3600" by simp
  show "0 \<le> hours_of d" unfolding hours_of_def using s3 by (rule double_round_nonneg)
  have s: "total_seconds d \<le> ?a * (9007199254740993 / 9007199254740992)"
    unfolding total_seconds_def using a by (rule double_round_le)
  have "hours_of d \<le> (total_seconds d / 3600) * (9007199254740993 / 9007199254740992)"
    unfolding hours_of_def using s3 by (rule double_round_le)
  with s show "hours_of d \<le> of_int d * (9007199254740993 / 9007199254740992)
                           * (9007199254740993 / 9007199254740992) / 3600000000"
    by linarith
qed

lemma hours_of_ge_int:
  assumes "0 \<le> n" "n \<le> 1000000" "n * 3600000000 \<le> d"
  shows "of_int n \<le> hours_of d"
proof (cases "n = 0")
  case True
  then show ?thesis using hours_of_upper(2)[of d] assms by simp
next
  case False
  then have n: "0 < n" using assms(1) by simp
  let ?a = "of_int d / 1000000 :: rat"
  have "(of_int (n * 3600000000) :: rat) \<le> of_int d" using assms(3) by (rule of_int_le_iff[THEN iffD2])
  then have a: "of_int (3600 * n) \<le> ?a" by simp
  have ap: "0 < ?a" using n assms(3) by simp
  have "3600 * n \<le> 2 ^ 53" using assms(2) by simp
  with ap a have "of_int (3600 * n) \<le> total_seconds d"
    unfolding total_seconds_def by (rule double_round_ge_int)
  then have s: "of_int n \<le> total_seconds d / 3600" by simp
  then have sp: "0 < total_seconds d / 3600" using n by (simp add: less_le_trans[OF _ s])
  have "n \<le> 2 ^ 53" using assms(2) by simp
  with sp s show ?thesis unfolding hours_of_def by (rule double_round_ge_int)
qed

lemma bonus_exact_nonneg:
  assumes "0 \<le> d" "d < 1000000 * 3600000000"
  shows "py_int (hours_of d) = d div 3600000000"
proof -
  define n where "n = d div 3600000000"
  define r where "r = d mod 3600000000"
  have d: "d = n * 3600000000 + r" by (simp add: n_def r_def)
  have r: "0 \<le> r" "r \<le> 3599999999" by (simp_all add: r_def)
  have n0: "0 \<le> n" using assms(1) by (simp add: n_def pos_imp_zdiv_nonneg_iff)
  have n1: "n \<le> 999999" using assms(2) d r(1) by linarith
  have lo: "of_int n \<le> hours_of d"
    using n0 n1 d r(1) by (intro hours_of_ge_int) simp_all
  have e: "(of_int d :: rat) = of_int n * 3600000000 + of_int r" by (subst d) simp
  have rr: "(of_int r :: rat) \<le> 3599999999" using r(2) by simp
  have nr: "(of_int n :: rat) \<le> 999999" "(0 :: rat) \<le> of_int n" using n1 n0 by simp_all
  have "of_int d * (9007199254740993 / 9007199254740992)
          * (9007199254740993 / 9007199254740992) / 3600000000 < (of_int n + 1 :: rat)"
    unfolding e using rr nr by (simp add: field_simps)
  then have hi: "hours_of d < of_int n + 1" using hours_of_upper(3)[OF assms(1)] by linarith
  have "0 \<le> hours_of d" using hours_of_upper(2)[OF assms(1)] .
  then have "py_int (hours_of d) = \<lfloor>hours_of d\<rfloor>" by (simp add: py_int_def)
  also have "\<dots> = n" using lo hi by (simp add: floor_unique)
  finally show ?thesis by (simp add: n_def)
qed

lemma bonus_exact:
  assumes "\<bar>d\<bar> < 1000000 * 3600000000"
  shows "py_int (hours_of d) = (if 0 \<le> d then d div 3600000000 else - ((- d) div 3600000000))"
proof (cases "0 \<le> d")
  case True
  then show ?thesis using bonus_exact_nonneg[of d] assms by simp
next
  case False
  then have "py_int (hours_of (- d)) = (- d) div 3600000000"
    using bonus_exact_nonneg[of "- d"] assms by simp
  then show ?thesis using False by (simp add: hours_of_minus py_int_minus)
qed

lemma bonus_bound_nonneg:
  assumes "0 \<le> d" "d \<le> 315537897599999999"
  shows "0 \<le> py_int (hours_of d)" "py_int (hours_of d) \<le> 87649416"
proof -
  have h0: "0 \<le> hours_of d" using hours_of_upper(2)[OF assms(1)] .
  then show "0 \<le> py_int (hours_of d)" by (simp add: py_int_def)
  have "(of_int d :: rat) \<le> 315537897599999999" using assms(2) by simp
  then have "of_int d * (9007199254740993 / 9007199254740992)
          * (9007199254740993 / 9007199254740992) / 3600000000 < (87649417 :: rat)"
    by linarith
  then have "hours_of d < 87649417" using hours_of_upper(3)[OF assms(1)] by linarith
  then have "\<lfloor>hours_of d\<rfloor> < 87649417" by (simp add: floor_less_iff)
  then show "py_int (hours_of d) \<le> 87649416" using h0 by (simp add: py_int_def)
qed

lemma bonus_bound:
  assumes "\<bar>d\<bar> \<le> 315537897599999999"
  shows "\<bar>py_int (hours_of d)\<bar> \<le> 87649416"
proof (cases "0 \<le> d")
  case True
  then show ?thesis using bonus_bound_nonneg[of d] assms by simp
next
  case False
  then have "0 \<le> py_int (hours_of (- d))" "py_int (hours_of (- d)) \<le> 87649416"
    using bonus_bound_nonneg[of "- d"] assms by simp_all
  then show ?thesis by (simp add: hours_of_minus py_int_minus)
qed

lemma hours_of_error: "\<bar>hours_of d - of_int d / 3600000000\<bar> \<le> \<bar>of_int d / 3600000000\<bar> / 2 ^ 51"
proof -
  let ?a = "of_int d / 1000000 :: rat"
  let ?s = "total_seconds d"
  define A where "A = \<bar>?a\<bar>"
  define S where "S = \<bar>?s\<bar>"
  define E1 where "E1 = \<bar>?s - ?a\<bar>"
  define E2 where "E2 = \<bar>hours_of d - ?s / 3600\<bar>"
  have 1: "E1 \<le> A / 9007199254740992"
    using double_round_error[of ?a] by (simp add: total_seconds_def E1_def A_def)
  have 2: "E2 \<le> (S / 3600) / 9007199254740992"
    using double_round_error[of "?s / 3600"] by (simp add: hours_of_def E2_def S_def)
  have 3: "S \<le> A + E1" unfolding S_def A_def E1_def by linarith
  have 5: "\<bar>?s / 3600 - of_int d / 3600000000\<bar> = E1 / 3600"
  proof -
    have "?s / 3600 - of_int d / 3600000000 = (?s - ?a) / 3600" by (simp add: field_simps)
    then have "\<bar>?s / 3600 - of_int d / 3600000000\<bar> = \<bar>(?s - ?a) / 3600\<bar>"
      by (simp only:)
    also have "\<dots> = \<bar>?s - ?a\<bar> / 3600" by (simp only: abs_divide abs_numeral)
    finally show ?thesis unfolding E1_def .
  qed
  have 6: "\<bar>of_int d / 3600000000 :: rat\<bar> = A / 3600" by (simp add: A_def)
  have A0: "0 \<le> A" by (simp add: A_def)
  have "\<bar>hours_of d - of_int d / 3600000000\<bar>
          \<le> \<bar>hours_of d - ?s / 3600\<bar> + \<bar>?s / 3600 - of_int d / 3600000000\<bar>"
    by linarith
  also have "\<dots> = E2 + E1 / 3600" unfolding 5 E2_def ..
  also have "\<dots> \<le> (A / 3600) / 2251799813685248"
    using 1 2 3 A0 by linarith
  finally show ?thesis unfolding 6 by simp
qed

section \<open>Lists of positions\<close>

lemma dense_positions_shift:
  assumes "dense_positions ps" "1 \<le> fp" "fp \<le> int (length ps) + 1"
  shows "dense_positions (map (\<lambda>p. if fp \<le> p then p + 1 else p) ps @ [fp])"
proof -
  from assms have d: "distinct ps" and s: "set ps = {1 .. int (length ps)}"
    by (auto simp: dense_positions_def)
  have inj: "inj_on (\<lambda>p. if fp \<le> p then p + 1 else p) (set ps)"
    by (auto simp: inj_on_def split: if_splits)
  have "distinct (map (\<lambda>p. if fp \<le> p then p + 1 else p) ps @ [fp])"
    using d inj by (auto simp: distinct_map split: if_splits)
  moreover have "set (map (\<lambda>p. if fp \<le> p then p + 1 else p) ps @ [fp]) = {1 .. int (length ps) + 1}"
  proof -
    have "(\<lambda>p. if fp \<le> p then p + 1 else p) ` {1 .. int (length ps)} = {1 .. int (length ps) + 1} - {fp}"
    proof (rule set_eqI)
      fix x show "x \<in> (\<lambda>p. if fp \<le> p then p + 1 else p) ` {1 .. int (length ps)} \<longleftrightarrow> x \<in> {1 .. int (length ps) + 1} - {fp}"
      proof
        assume "x \<in> (\<lambda>p. if fp \<le> p then p + 1 else p) ` {1 .. int (length ps)}"
        then show "x \<in> {1 .. int (length ps) + 1} - {fp}" using assms(2,3) by (auto split: if_splits)
      next
        assume a: "x \<in> {1 .. int (length ps) + 1} - {fp}"
        show "x \<in> (\<lambda>p. if fp \<le> p then p + 1 else p) ` {1 .. int (length ps)}"
        proof (cases "x < fp")
          case True
          then have "x = (\<lambda>p. if fp \<le> p then p + 1 else p) x" by simp
          moreover have "x \<in> {1 .. int (length ps)}" using a True assms(3) by auto
          ultimately show ?thesis by (rule image_eqI)
        next
          case False
          then have "x = (\<lambda>p. if fp \<le> p then p + 1 else p) (x - 1)" using a by auto
          moreover have "x - 1 \<in> {1 .. int (length ps)}" using a False assms(2) by auto
          ultimately show ?thesis by (rule image_eqI)
        qed
      qed
    qed
    then show ?thesis using s assms(2,3) by auto
  qed
  ultimately show ?thesis by (simp add: dense_positions_def)
qed

lemma dense_positions_length:
  assumes "distinct ps" "set ps = {1 .. n}" 
  shows "int (length ps) = max 0 n"
proof -
  have "length ps = card (set ps)" using assms(1) by (simp add: distinct_card)
  then show ?thesis using assms(2) by simp
qed

lemma dense_positions_pop:
  assumes "dense_positions ps"
  shows "dense_positions (map (\<lambda>p. max 1 (p - 1)) (filter (\<lambda>p. p \<noteq> 1) ps))"
proof -
  from assms have d: "distinct ps" and s: "set ps = {1 .. int (length ps)}"
    by (auto simp: dense_positions_def)
  let ?qs = "map (\<lambda>p. max 1 (p - 1)) (filter (\<lambda>p. p \<noteq> 1) ps)"
  have inj: "inj_on (\<lambda>p. max 1 (p - 1)) (set (filter (\<lambda>p. p \<noteq> 1) ps))"
    using s by (auto simp: inj_on_def)
  have dq: "distinct ?qs" using d inj by (simp add: distinct_map)
  have "set ?qs = (\<lambda>p. max 1 (p - 1)) ` ({1 .. int (length ps)} - {1})"
    using s by auto
  also have "\<dots> = {1 .. int (length ps) - 1}"
  proof (rule set_eqI)
    fix x show "x \<in> (\<lambda>p. max 1 (p - 1)) ` ({1 .. int (length ps)} - {1}) \<longleftrightarrow> x \<in> {1 .. int (length ps) - 1}"
    proof
      assume "x \<in> (\<lambda>p. max 1 (p - 1)) ` ({1 .. int (length ps)} - {1})"
      then show "x \<in> {1 .. int (length ps) - 1}" by auto
    next
      assume a: "x \<in> {1 .. int (length ps) - 1}"
      then have "x = (\<lambda>p. max 1 (p - 1)) (x + 1)" by auto
      moreover have "x + 1 \<in> {1 .. int (length ps)} - {1}" using a by auto
      ultimately show "x \<in> (\<lambda>p. max 1 (p - 1)) ` ({1 .. int (length ps)} - {1})" by (rule image_eqI)
    qed
  qed
  finally have sq: "set ?qs = {1 .. int (length ps) - 1}" .
  have len: "int (length ?qs) = max 0 (int (length ps) - 1)"
    using dense_positions_length[OF dq sq] .
  have "{1 .. max 0 (int (length ps) - 1)} = {1 .. int (length ps) - 1}" by auto
  then have "{1 .. int (length ?qs)} = {1 .. int (length ps) - 1}" unfolding len .
  from sq this[symmetric] have "set ?qs = {1 .. int (length ?qs)}" by (rule trans)
  with dq show ?thesis unfolding dense_positions_def by blast
qed

section \<open>Queries and the first loop of add\<close>

lemma first_None_iff: "first xs = None \<longleftrightarrow> xs = []"
  by (cases xs) (simp_all add: first_def)

lemma first_Some_mem: "first xs = Some x \<Longrightarrow> x \<in> set xs"
  by (cases xs) (simp_all add: first_def)

lemma first_filter_Some: "first (filter P xs) = Some x \<Longrightarrow> x \<in> set xs \<and> P x"
  using first_Some_mem[of "filter P xs" x] by simp

lemma first_order_by_position:
  assumes "first (order_by_position rows) = Some f"
  shows "f \<in> set rows" and "\<forall>e\<in>set rows. position f \<le> position e"
proof -
  from assms obtain r where eq: "sort_key position rows = f # r"
    by (cases "sort_key position rows") (simp_all add: first_def order_by_position_def)
  have "f \<in> set (sort_key position rows)" unfolding eq by simp
  then show "f \<in> set rows" by simp
  have "sorted (map position (sort_key position rows))" by (rule sorted_sort_key)
  then have "\<forall>e\<in>set r. position f \<le> position e" unfolding eq by simp
  moreover have "set rows = insert f (set r)"
    using arg_cong[OF eq, of set] by simp
  ultimately show "\<forall>e\<in>set rows. position f \<le> position e" by simp
qed

lemma first_order_by_position_None: "first (order_by_position rows) = None \<longleftrightarrow> rows = []"
proof -
  have "length (sort_key position rows) = length rows" by simp
  then have "sort_key position rows = [] \<longleftrightarrow> rows = []" by (metis length_0_conv)
  then show ?thesis by (simp add: first_None_iff order_by_position_def)
qed

lemma unique_ids_eq:
  "unique_ids tbl \<Longrightarrow> a \<in> set tbl \<Longrightarrow> b \<in> set tbl \<Longrightarrow> wl_id a = wl_id b \<Longrightarrow> a = b"
  unfolding unique_ids_def by (meson distinct_map inj_on_def)

lemma filter_map_unchanged:
  assumes "\<And>e. e \<in> set xs \<Longrightarrow> P (h e) = P e" and "\<And>e. e \<in> set xs \<Longrightarrow> P e \<Longrightarrow> h e = e"
  shows "filter P (map h xs) = filter P xs"
  using assms by (induction xs) auto

lemma filter_map_changed:
  assumes "\<And>e. e \<in> set xs \<Longrightarrow> P (h e) = Q e"
  shows "filter P (map h xs) = map h (filter Q xs)"
  using assms by (induction xs) auto

lemma insertion_step_outranks:
  "insertion_step score now e fp = (if outranks score now e then min fp (position e) else fp)"
  by (auto simp: insertion_step_def outranks_def)

lemma Min_insert_min:
  fixes a b :: int
  assumes "finite B"
  shows "Min (insert (min a b) B) = Min (insert a (insert b B))"
proof (cases "B = {}")
  case True
  then show ?thesis by simp
next
  case False
  then show ?thesis using assms by (simp add: min.assoc)
qed

lemma fold_insertion_step:
  "fold (insertion_step score now) es init =
     Min (insert init (position ` {e \<in> set es. outranks score now e}))"
proof (induction es arbitrary: init)
  case Nil
  show ?case by simp
next
  case (Cons e es)
  let ?B = "position ` {x \<in> set es. outranks score now x}"
  have fin: "finite ?B" by simp
  show ?case
  proof (cases "outranks score now e")
    case True
    then have s: "position ` {x \<in> set (e # es). outranks score now x} = insert (position e) ?B"
      by auto
    have step: "insertion_step score now e init = min init (position e)"
      using True by (simp add: insertion_step_outranks)
    have "fold (insertion_step score now) (e # es) init = Min (insert (min init (position e)) ?B)"
      using Cons.IH[of "min init (position e)"] by (simp add: step)
    also have "\<dots> = Min (insert init (insert (position e) ?B))"
      using fin by (rule Min_insert_min)
    finally show ?thesis unfolding s .
  next
    case False
    then have s: "position ` {x \<in> set (e # es). outranks score now x} = ?B" by auto
    have step: "insertion_step score now e init = init"
      using False by (simp add: insertion_step_outranks)
    show ?thesis unfolding s using Cons.IH[of init] by (simp add: step)
  qed
qed

lemma fold_insertion_step_bounds:
  assumes "\<forall>e\<in>set es. 1 \<le> position e" "1 \<le> init"
  shows "1 \<le> fold (insertion_step score now) es init"
    and "fold (insertion_step score now) es init \<le> init"
proof -
  let ?S = "insert init (position ` {e \<in> set es. outranks score now e})"
  have fin: "finite ?S" by simp
  have "Min ?S \<in> ?S" by (rule Min_in[OF fin]) simp
  then show "1 \<le> fold (insertion_step score now) es init"
    unfolding fold_insertion_step using assms by auto
  show "fold (insertion_step score now) es init \<le> init"
    unfolding fold_insertion_step by (rule Min_le[OF fin]) simp
qed

lemma is_waiting_shift [simp]: "is_waiting s (shift_entry sid fp e) = is_waiting s e"
  by (simp add: shift_entry_def is_waiting_def)

lemma waiting_entries_shift:
  "waiting_entries (map (shift_entry sid fp) tbl) s = map (shift_entry sid fp) (waiting_entries tbl s)"
  unfolding waiting_entries_def by (rule filter_map_changed) simp

lemma waiting_positions_shift_same:
  "waiting_positions (map (shift_entry sid fp) tbl) sid =
     map (\<lambda>p. if fp \<le> p then p + 1 else p) (waiting_positions tbl sid)"
  unfolding waiting_positions_def waiting_entries_shift
  by (simp add: waiting_entries_def shift_entry_def)

lemma waiting_entries_shift_other:
  "s \<noteq> sid \<Longrightarrow> waiting_entries (map (shift_entry sid fp) tbl) s = waiting_entries tbl s"
  unfolding waiting_entries_def
  by (rule filter_map_unchanged) (auto simp: shift_entry_def is_waiting_def)

lemma dense_waiting_ge1: "dense tbl sid \<Longrightarrow> e \<in> set (waiting_entries tbl sid) \<Longrightarrow> 1 \<le> position e"
  unfolding dense_def dense_positions_def waiting_positions_def
  by (metis (no_types, lifting) atLeastAtMost_iff image_eqI list.set_map)

section \<open>add_to_waiting_list keeps the positions dense\<close>

lemma add_to_waiting_list_Inl:
  "add_to_waiting_list db sid mid now now' nid = (Inl err, db') \<Longrightarrow> db' = db"
  by (auto simp: add_to_waiting_list_def Let_def split: option.splits if_splits)

lemma add_to_waiting_list_Inr:
  assumes "add_to_waiting_list db sid mid now now' nid = (Inr obj, db')"
  shows "obj = Detached"
    and "db' = db\<lparr>waiting_list_tbl :=
                   map (shift_entry sid (position (wl_entry_of db sid mid now now' nid)))
                       (waiting_list_tbl db) @ [wl_entry_of db sid mid now now' nid]\<rparr>"
    and "nid \<notin> set (map wl_id (waiting_list_tbl db))"
  using assms
  by (auto simp: add_to_waiting_list_def Let_def final_position_of_def wl_entry_of_def
           split: option.splits if_splits)

lemma final_position_bounds:
  assumes "dense (waiting_list_tbl db) sid"
  shows "1 \<le> final_position_of db sid score now"
    and "final_position_of db sid score now \<le> int (length (waiting_entries (waiting_list_tbl db) sid)) + 1"
  unfolding final_position_of_def
  using fold_insertion_step_bounds[of "waiting_entries (waiting_list_tbl db) sid"
          "int (length (waiting_entries (waiting_list_tbl db) sid)) + 1" score now]
        dense_waiting_ge1[OF assms]
  by auto

lemma dense_append_other:
  "\<not> is_waiting s e \<Longrightarrow> dense (tbl @ [e]) s = dense tbl s"
  by (simp add: dense_def waiting_positions_def waiting_entries_def)

lemma dense_add_same:
  assumes "dense tbl sid" "1 \<le> fp" "fp \<le> int (length (waiting_entries tbl sid)) + 1"
    and "class_session_id e = sid" "status e = WAITING" "position e = fp"
  shows "dense (map (shift_entry sid fp) tbl @ [e]) sid"
proof -
  have "waiting_positions (map (shift_entry sid fp) tbl @ [e]) sid
        = map (\<lambda>p. if fp \<le> p then p + 1 else p) (waiting_positions tbl sid) @ [fp]"
    using assms(4-6) waiting_positions_shift_same[of sid fp tbl]
    by (simp add: waiting_positions_def waiting_entries_def is_waiting_def)
  moreover have "dense_positions (map (\<lambda>p. if fp \<le> p then p + 1 else p) (waiting_positions tbl sid) @ [fp])"
    using assms(1-3)
    by (intro dense_positions_shift) (simp_all add: dense_def waiting_positions_def)
  ultimately show ?thesis by (simp add: dense_def)
qed

lemma dense_add_other:
  assumes "dense tbl s" "s \<noteq> sid" "class_session_id e = sid"
  shows "dense (map (shift_entry sid fp) tbl @ [e]) s"
proof -
  have "\<not> is_waiting s e" using assms(2,3) by (simp add: is_waiting_def)
  then have "dense (map (shift_entry sid fp) tbl @ [e]) s = dense (map (shift_entry sid fp) tbl) s"
    by (rule dense_append_other)
  also have "\<dots> = dense tbl s"
    using assms(2) by (simp add: dense_def waiting_positions_def waiting_entries_shift_other)
  finally show ?thesis using assms(1) by simp
qed

lemma add_preserves_dense:
  assumes "dense (waiting_list_tbl db) s"
  shows "dense (waiting_list_tbl (snd (add_to_waiting_list db sid mid now now' nid))) s"
proof (cases "fst (add_to_waiting_list db sid mid now now' nid)")
  case (Inl err)
  then have "add_to_waiting_list db sid mid now now' nid
               = (Inl err, snd (add_to_waiting_list db sid mid now now' nid))"
    by (metis prod.collapse)
  from add_to_waiting_list_Inl[OF this] show ?thesis using assms by simp
next
  case (Inr obj)
  then have eq: "add_to_waiting_list db sid mid now now' nid
               = (Inr obj, snd (add_to_waiting_list db sid mid now now' nid))"
    by (metis prod.collapse)
  note r = add_to_waiting_list_Inr[OF eq]
  define entry where "entry = wl_entry_of db sid mid now now' nid"
  let ?score = "calculate_priority_score db mid now now'"
  have p: "position entry = final_position_of db sid ?score now"
    and c: "class_session_id entry = sid" and st: "status entry = WAITING"
    by (simp_all add: entry_def wl_entry_of_def)
  have "dense (map (shift_entry sid (position entry)) (waiting_list_tbl db) @ [entry]) s"
  proof (cases "s = sid")
    case True
    show ?thesis unfolding True
      using assms True final_position_bounds[of db sid ?score now] p c st
      by (intro dense_add_same) simp_all
  next
    case False
    with assms c show ?thesis by (intro dense_add_other) simp_all
  qed
  then show ?thesis by (subst r(2)) (simp add: entry_def)
qed

section \<open>promote_from_queue keeps the positions dense\<close>

lemma promote_from_queue_empty:
  "waiting_entries (waiting_list_tbl db) sid = [] \<Longrightarrow> promote_from_queue db sid h now = (None, db)"
  by (simp add: promote_from_queue_def first_def order_by_position_def)

lemma promote_from_queue_nonempty:
  assumes "waiting_entries (waiting_list_tbl db) sid \<noteq> []"
  obtains f where "first (order_by_position (waiting_entries (waiting_list_tbl db) sid)) = Some f"
    and "promote_from_queue db sid h now =
           (Some (assign_entry (wl_id f) now (now + timedelta_hours h) f),
            db\<lparr>waiting_list_tbl :=
                 map (promote_row sid (wl_id f) now (now + timedelta_hours h)) (waiting_list_tbl db)\<rparr>)"
proof -
  from assms obtain f where f: "first (order_by_position (waiting_entries (waiting_list_tbl db) sid)) = Some f"
    using first_order_by_position_None[of "waiting_entries (waiting_list_tbl db) sid"] by fastforce
  have "promote_from_queue db sid h now =
           (Some (assign_entry (wl_id f) now (now + timedelta_hours h) f),
            db\<lparr>waiting_list_tbl :=
                 map (promote_row sid (wl_id f) now (now + timedelta_hours h)) (waiting_list_tbl db)\<rparr>)"
    by (simp add: promote_from_queue_def f Let_def promote_row_def comp_def)
  with f show ?thesis by (rule that)
qed

lemma wl_id_promote_row [simp]: "wl_id (promote_row sid fid now dl e) = wl_id e"
  by (simp add: promote_row_def close_gap_def assign_entry_def)

lemma class_session_id_promote_row [simp]:
  "class_session_id (promote_row sid fid now dl e) = class_session_id e"
  by (simp add: promote_row_def close_gap_def assign_entry_def)

lemma is_waiting_promote_row:
  "is_waiting s (promote_row sid fid now dl e) \<longleftrightarrow> is_waiting s e \<and> wl_id e \<noteq> fid"
  by (simp add: promote_row_def close_gap_def assign_entry_def is_waiting_def)

lemma status_promote_row:
  "status (promote_row sid fid now dl e) = (if wl_id e = fid then ASSIGNED else status e)"
  by (simp add: promote_row_def close_gap_def assign_entry_def is_waiting_def)

lemma waiting_entries_promote:
  "waiting_entries (map (promote_row sid fid now dl) tbl) s =
     map (promote_row sid fid now dl) (filter (\<lambda>e. is_waiting s e \<and> wl_id e \<noteq> fid) tbl)"
  unfolding waiting_entries_def by (rule filter_map_changed) (rule is_waiting_promote_row)

lemma promote_row_position:
  "wl_id e \<noteq> fid \<Longrightarrow> position (promote_row sid fid now dl e) =
     (if is_waiting sid e then max 1 (position e - 1) else position e)"
  by (simp add: promote_row_def close_gap_def assign_entry_def)

lemma promote_row_other:
  "wl_id e \<noteq> fid \<Longrightarrow> \<not> is_waiting sid e \<Longrightarrow> promote_row sid fid now dl e = e"
  by (simp add: promote_row_def close_gap_def assign_entry_def)

lemma waiting_positions_promote_same:
  "waiting_positions (map (promote_row sid fid now dl) tbl) sid =
     map (\<lambda>p. max 1 (p - 1))
         (map position (filter (\<lambda>e. wl_id e \<noteq> fid) (waiting_entries tbl sid)))"
proof -
  have a: "filter (\<lambda>e. is_waiting sid e \<and> wl_id e \<noteq> fid) tbl
           = filter (\<lambda>e. wl_id e \<noteq> fid) (waiting_entries tbl sid)"
    by (simp add: waiting_entries_def conj_commute)
  have b: "map position (map (promote_row sid fid now dl)
                              (filter (\<lambda>e. wl_id e \<noteq> fid) (waiting_entries tbl sid)))
           = map (\<lambda>p. max 1 (p - 1))
                 (map position (filter (\<lambda>e. wl_id e \<noteq> fid) (waiting_entries tbl sid)))"
    by (auto simp: promote_row_position waiting_entries_def)
  show ?thesis
    unfolding waiting_positions_def waiting_entries_promote a by (rule b)
qed

lemma waiting_entries_promote_other:
  assumes "unique_ids tbl" "f \<in> set tbl" "class_session_id f = sid" "s \<noteq> sid"
  shows "waiting_entries (map (promote_row sid (wl_id f) now dl) tbl) s = waiting_entries tbl s"
  unfolding waiting_entries_def
proof (rule filter_map_unchanged)
  fix e assume e: "e \<in> set tbl"
  have ne: "is_waiting s e \<Longrightarrow> wl_id e \<noteq> wl_id f"
    using unique_ids_eq[OF assms(1) e assms(2)] assms(3,4) by (auto simp: is_waiting_def)
  show "is_waiting s (promote_row sid (wl_id f) now dl e) = is_waiting s e"
    using ne by (auto simp: is_waiting_promote_row)
  show "is_waiting s e \<Longrightarrow> promote_row sid (wl_id f) now dl e = e"
    using ne assms(4) by (intro promote_row_other) (auto simp: is_waiting_def)
qed

lemma dense_head:
  assumes "dense tbl sid" "first (order_by_position (waiting_entries tbl sid)) = Some f"
  shows "position f = 1"
proof -
  let ?W = "waiting_entries tbl sid"
  note fo = first_order_by_position[OF assms(2)]
  from assms(1) have s: "position ` set ?W = {1 .. int (length ?W)}"
    by (simp add: dense_def dense_positions_def waiting_positions_def)
  have "?W \<noteq> []" using fo(1) by auto
  then have "1 \<in> {1 .. int (length ?W)}" by (cases ?W) auto
  then obtain e where "e \<in> set ?W" "position e = 1" using s by (metis imageE)
  then have "position f \<le> 1" using fo(2) by fastforce
  moreover have "position f \<in> {1 .. int (length ?W)}" using fo(1) s by blast
  ultimately show ?thesis by simp
qed

lemma dense_promote_same:
  assumes "unique_ids tbl" "dense tbl sid"
    and "first (order_by_position (waiting_entries tbl sid)) = Some f"
  shows "dense (map (promote_row sid (wl_id f) now dl) tbl) sid"
proof -
  let ?W = "waiting_entries tbl sid"
  note fo = first_order_by_position[OF assms(3)]
  have p1: "position f = 1" using dense_head[OF assms(2,3)] .
  have sub: "set ?W \<subseteq> set tbl" by (auto simp: waiting_entries_def)
  have inj: "inj_on position (set ?W)"
    using assms(2) by (simp add: dense_def dense_positions_def waiting_positions_def distinct_map)
  have "filter (\<lambda>e. wl_id e \<noteq> wl_id f) ?W = filter (\<lambda>e. position e \<noteq> 1) ?W"
  proof (rule filter_cong[OF refl])
    fix e assume e: "e \<in> set ?W"
    have "wl_id e = wl_id f \<longleftrightarrow> e = f"
      using unique_ids_eq[OF assms(1), of e f] e fo(1) sub by auto
    moreover have "position e = 1 \<longleftrightarrow> e = f"
      using inj e fo(1) p1 by (auto simp: inj_on_def)
    ultimately show "(wl_id e \<noteq> wl_id f) = (position e \<noteq> 1)" by simp
  qed
  moreover have "map position (filter (\<lambda>e. position e \<noteq> 1) ?W)
                 = filter (\<lambda>p. p \<noteq> 1) (waiting_positions tbl sid)"
    by (simp add: waiting_positions_def filter_map comp_def)
  ultimately have "waiting_positions (map (promote_row sid (wl_id f) now dl) tbl) sid
             = map (\<lambda>p. max 1 (p - 1)) (filter (\<lambda>p. p \<noteq> 1) (waiting_positions tbl sid))"
    unfolding waiting_positions_promote_same by simp
  then show ?thesis
    using dense_positions_pop[of "waiting_positions tbl sid"] assms(2) by (simp add: dense_def)
qed

lemma unique_ids_promote_row:
  "unique_ids (map (promote_row sid fid now dl) tbl) = unique_ids tbl"
  by (simp add: unique_ids_def comp_def)

lemma promote_preserves_unique_ids:
  "unique_ids (waiting_list_tbl (snd (promote_from_queue db sid h now))) = unique_ids (waiting_list_tbl db)"
proof (cases "waiting_entries (waiting_list_tbl db) sid = []")
  case True
  then show ?thesis by (simp add: promote_from_queue_empty)
next
  case False
  then obtain f where "promote_from_queue db sid h now =
           (Some (assign_entry (wl_id f) now (now + timedelta_hours h) f),
            db\<lparr>waiting_list_tbl :=
                 map (promote_row sid (wl_id f) now (now + timedelta_hours h)) (waiting_list_tbl db)\<rparr>)"
    by (rule promote_from_queue_nonempty)
  then show ?thesis by (simp add: unique_ids_promote_row)
qed

lemma promote_preserves_dense:
  assumes "unique_ids (waiting_list_tbl db)" "dense (waiting_list_tbl db) s"
  shows "dense (waiting_list_tbl (snd (promote_from_queue db sid h now))) s"
proof (cases "waiting_entries (waiting_list_tbl db) sid = []")
  case True
  then show ?thesis using assms by (simp add: promote_from_queue_empty)
next
  case False
  then obtain f where f: "first (order_by_position (waiting_entries (waiting_list_tbl db) sid)) = Some f"
    and eq: "promote_from_queue db sid h now =
           (Some (assign_entry (wl_id f) now (now + timedelta_hours h) f),
            db\<lparr>waiting_list_tbl :=
                 map (promote_row sid (wl_id f) now (now + timedelta_hours h)) (waiting_list_tbl db)\<rparr>)"
    by (rule promote_from_queue_nonempty)
  note fo = first_order_by_position[OF f]
  have fin: "f \<in> set (waiting_list_tbl db)" and fs: "class_session_id f = sid"
    using fo(1) by (auto simp: waiting_entries_def is_waiting_def)
  show ?thesis
  proof (cases "s = sid")
    case True
    then show ?thesis using dense_promote_same[OF assms(1) _ f] assms(2) by (simp add: eq)
  next
    case False
    then show ?thesis
      using waiting_entries_promote_other[OF assms(1) fin fs False] assms(2)
      by (simp add: eq dense_def waiting_positions_def)
  qed
qed

section \<open>confirm_assignment and check_expired_assignments keep the positions dense\<close>

lemma waiting_entries_restatus:
  assumes "\<And>e. e \<in> set tbl \<Longrightarrow> C e \<Longrightarrow> status e \<noteq> WAITING" "st \<noteq> WAITING"
  shows "waiting_entries (map (\<lambda>e. if C e then e\<lparr>status := st\<rparr> else e) tbl) s = waiting_entries tbl s"
  unfolding waiting_entries_def
  by (rule filter_map_unchanged) (use assms in \<open>auto simp: is_waiting_def\<close>)

lemma first_filter_id:
  assumes "unique_ids tbl" "first (filter (\<lambda>e. wl_id e = wid) tbl) = Some w"
  shows "w \<in> set tbl" "wl_id w = wid" "\<And>e. e \<in> set tbl \<Longrightarrow> wl_id e = wid \<longleftrightarrow> e = w"
proof -
  from first_filter_Some[OF assms(2)] show w: "w \<in> set tbl" and i: "wl_id w = wid" by simp_all
  fix e assume "e \<in> set tbl"
  then show "wl_id e = wid \<longleftrightarrow> e = w"
    using unique_ids_eq[OF assms(1) _ w, of e] i by auto
qed

lemma waiting_entries_set_status:
  assumes "unique_ids tbl" "first (filter (\<lambda>e. wl_id e = wid) tbl) = Some w"
    "status w \<noteq> WAITING" "st \<noteq> WAITING"
  shows "waiting_entries (map (set_status wid st) tbl) s = waiting_entries tbl s"
proof -
  have "set_status wid st = (\<lambda>e. if wl_id e = wid then e\<lparr>status := st\<rparr> else e)"
    by (rule ext) (simp add: set_status_def)
  moreover have "waiting_entries (map (\<lambda>e. if wl_id e = wid then e\<lparr>status := st\<rparr> else e) tbl) s
                 = waiting_entries tbl s"
    using first_filter_id(3)[OF assms(1,2)] assms(3,4)
    by (intro waiting_entries_restatus) auto
  ultimately show ?thesis by (simp only:)
qed

lemma unique_ids_set_status: "unique_ids (map (set_status wid st) tbl) = unique_ids tbl"
  by (simp add: unique_ids_def comp_def set_status_def if_distrib cong: if_cong)

lemma confirm_preserves_dense:
  assumes "unique_ids (waiting_list_tbl db)" "dense (waiting_list_tbl db) s"
  shows "dense (waiting_list_tbl (snd (confirm_assignment db wid now np ne nc nid))) s"
proof (cases "first (filter (\<lambda>e. wl_id e = wid) (waiting_list_tbl db))")
  case None
  then show ?thesis using assms(2) by (simp add: confirm_assignment_def)
next
  case (Some w)
  show ?thesis
  proof (cases "status w = ASSIGNED")
    case False
    then show ?thesis using assms(2) Some by (simp add: confirm_assignment_def)
  next
    case True
    then have nw: "status w \<noteq> WAITING" by simp
    show ?thesis
    proof (cases "case approval_deadline w of None \<Rightarrow> False | Some d \<Rightarrow> now > d")
      case True
      let ?db1 = "db\<lparr>waiting_list_tbl := map (set_status wid EXPIRED) (waiting_list_tbl db)\<rparr>"
      have u1: "unique_ids (waiting_list_tbl ?db1)" using assms(1) by (simp add: unique_ids_set_status)
      have d1: "dense (waiting_list_tbl ?db1) s"
        using assms(2) waiting_entries_set_status[OF assms(1) Some nw, of EXPIRED s]
        by (simp add: dense_def waiting_positions_def)
      have "snd (confirm_assignment db wid now np ne nc nid)
            = snd (promote_from_queue ?db1 (class_session_id w) approval_deadline_hours_default np)"
        using Some \<open>status w = ASSIGNED\<close> True by (simp add: confirm_assignment_def Let_def)
      then show ?thesis using promote_preserves_dense[OF u1 d1] by simp
    next
      case False
      have c: "waiting_entries (map (\<lambda>e. if wl_id e = wid then e\<lparr>status := CONFIRMED, confirmed_at := Some nc\<rparr> else e)
                                    (waiting_list_tbl db)) s = waiting_entries (waiting_list_tbl db) s"
        unfolding waiting_entries_def
        by (rule filter_map_unchanged)
           (use first_filter_id(3)[OF assms(1) Some] nw in \<open>auto simp: is_waiting_def\<close>)
      show ?thesis
        using Some \<open>status w = ASSIGNED\<close> False assms(2) c
        by (auto simp: confirm_assignment_def Let_def dense_def waiting_positions_def)
    qed
  qed
qed

lemma promote_keeps_non_waiting:
  assumes "\<forall>e\<in>set (waiting_list_tbl db). wl_id e \<in> I \<longrightarrow> status e \<noteq> WAITING"
  shows "\<forall>e\<in>set (waiting_list_tbl (snd (promote_from_queue db sid h now))). wl_id e \<in> I \<longrightarrow> status e \<noteq> WAITING"
proof (cases "waiting_entries (waiting_list_tbl db) sid = []")
  case True
  then show ?thesis using assms by (simp add: promote_from_queue_empty)
next
  case False
  then obtain f where eq: "promote_from_queue db sid h now =
           (Some (assign_entry (wl_id f) now (now + timedelta_hours h) f),
            db\<lparr>waiting_list_tbl :=
                 map (promote_row sid (wl_id f) now (now + timedelta_hours h)) (waiting_list_tbl db)\<rparr>)"
    by (rule promote_from_queue_nonempty)
  show ?thesis using assms by (auto simp: eq status_promote_row)
qed

lemma promote_each_invariants:
  assumes "unique_ids (waiting_list_tbl db)" "dense (waiting_list_tbl db) s"
    "\<forall>e\<in>set (waiting_list_tbl db). wl_id e \<in> I \<longrightarrow> status e \<noteq> WAITING"
  shows "unique_ids (waiting_list_tbl (promote_each db clk es))
       \<and> dense (waiting_list_tbl (promote_each db clk es)) s
       \<and> (\<forall>e\<in>set (waiting_list_tbl (promote_each db clk es)). wl_id e \<in> I \<longrightarrow> status e \<noteq> WAITING)"
  using assms
proof (induction es arbitrary: db clk)
  case Nil
  then show ?case by simp
next
  case (Cons e es)
  let ?db' = "snd (promote_from_queue db (class_session_id e) approval_deadline_hours_default (clk 0))"
  have "unique_ids (waiting_list_tbl ?db')" using Cons.prems(1) by (simp add: promote_preserves_unique_ids)
  moreover have "dense (waiting_list_tbl ?db') s" using Cons.prems(1,2) by (rule promote_preserves_dense)
  moreover have "\<forall>e\<in>set (waiting_list_tbl ?db'). wl_id e \<in> I \<longrightarrow> status e \<noteq> WAITING"
    using Cons.prems(3) by (rule promote_keeps_non_waiting)
  ultimately show ?case using Cons.IH[of ?db' "\<lambda>k. clk (Suc k)"] by simp
qed

lemma sweep_preserves_dense:
  assumes "unique_ids (waiting_list_tbl db)" "dense (waiting_list_tbl db) s"
  shows "dense (waiting_list_tbl (snd (check_expired_assignments db scope now clk))) s"
proof -
  let ?expired = "filter (\<lambda>e. status e = ASSIGNED
                               \<and> (case approval_deadline e of None \<Rightarrow> False | Some d \<Rightarrow> d < now)
                               \<and> (case scope of None \<Rightarrow> True
                                  | Some sid \<Rightarrow> sid = [] \<or> class_session_id e = sid))
                           (waiting_list_tbl db)"
  let ?I = "set (map wl_id ?expired)"
  let ?db1 = "promote_each db clk ?expired"
  have init: "\<forall>e\<in>set (waiting_list_tbl db). wl_id e \<in> ?I \<longrightarrow> status e \<noteq> WAITING"
  proof (intro ballI impI)
    fix e assume e: "e \<in> set (waiting_list_tbl db)" and "wl_id e \<in> ?I"
    then obtain x where x: "x \<in> set (waiting_list_tbl db)" "status x = ASSIGNED" "wl_id x = wl_id e"
      by auto
    then have "x = e" using unique_ids_eq[OF assms(1) x(1) e] by simp
    then show "status e \<noteq> WAITING" using x(2) by simp
  qed
  note inv = promote_each_invariants[OF assms init, of clk ?expired]
  have "waiting_entries (map (\<lambda>e. if wl_id e \<in> ?I then e\<lparr>status := EXPIRED\<rparr> else e)
                             (waiting_list_tbl ?db1)) s = waiting_entries (waiting_list_tbl ?db1) s"
    using inv by (intro waiting_entries_restatus) auto
  then show ?thesis
    using inv by (simp add: check_expired_assignments_def Let_def dense_def waiting_positions_def)
qed

section \<open>The priority calculator\<close>

lemma active_subscriptions_set:
  "(s, p) \<in> set (active_subscriptions db mid) \<longleftrightarrow>
     s \<in> set (subscriptions_tbl db) \<and> sub_member_id s = mid \<and> sub_status s = ACTIVE
     \<and> p \<in> set (plans_tbl db) \<and> plan_id p = sub_plan_id s"
  by (auto simp: active_subscriptions_def)

lemma base_score_none:
  assumes "\<not> (\<exists>s\<in>set (subscriptions_tbl db). \<exists>p\<in>set (plans_tbl db).
               sub_member_id s = mid \<and> sub_status s = ACTIVE \<and> plan_id p = sub_plan_id s)"
  shows "base_score db mid = 0"
proof (cases "active_subscriptions db mid")
  case Nil
  then show ?thesis by (simp add: base_score_def first_def)
next
  case (Cons sp rest)
  then have "(fst sp, snd sp) \<in> set (active_subscriptions db mid)" by simp
  then show ?thesis using assms unfolding active_subscriptions_set by blast
qed

lemma base_score_some:
  assumes "\<exists>s\<in>set (subscriptions_tbl db). \<exists>p\<in>set (plans_tbl db).
               sub_member_id s = mid \<and> sub_status s = ACTIVE \<and> plan_id p = sub_plan_id s"
  obtains s p where "s \<in> set (subscriptions_tbl db)" "p \<in> set (plans_tbl db)"
    "sub_member_id s = mid" "sub_status s = ACTIVE" "plan_id p = sub_plan_id s"
    "base_score db mid = (if plan_type p = VIP then 1000 else 100)"
proof (cases "active_subscriptions db mid")
  case Nil
  from assms obtain s p where "(s, p) \<in> set (active_subscriptions db mid)"
    unfolding active_subscriptions_set by blast
  with Nil show ?thesis by simp
next
  case (Cons sp rest)
  then have m: "(fst sp, snd sp) \<in> set (active_subscriptions db mid)" by simp
  have b: "base_score db mid = (if plan_type (snd sp) = VIP then 1000 else 100)"
    using Cons by (simp add: base_score_def first_def)
  from m b show ?thesis unfolding active_subscriptions_set by (intro that[of "fst sp" "snd sp"]) simp_all
qed

lemma base_score_vip:
  assumes "\<exists>s\<in>set (subscriptions_tbl db). \<exists>p\<in>set (plans_tbl db).
               sub_member_id s = mid \<and> sub_status s = ACTIVE \<and> plan_id p = sub_plan_id s"
    and "\<forall>s\<in>set (subscriptions_tbl db). \<forall>p\<in>set (plans_tbl db).
               sub_member_id s = mid \<and> sub_status s = ACTIVE \<and> plan_id p = sub_plan_id s
               \<longrightarrow> plan_type p = VIP"
  shows "base_score db mid = 1000"
proof -
  from assms(1) obtain s p where "s \<in> set (subscriptions_tbl db)" "p \<in> set (plans_tbl db)"
    "sub_member_id s = mid" "sub_status s = ACTIVE" "plan_id p = sub_plan_id s"
    "base_score db mid = (if plan_type p = VIP then 1000 else 100)"
    by (rule base_score_some)
  then show ?thesis using assms(2) by auto
qed

lemma base_score_other:
  assumes "\<exists>s\<in>set (subscriptions_tbl db). \<exists>p\<in>set (plans_tbl db).
               sub_member_id s = mid \<and> sub_status s = ACTIVE \<and> plan_id p = sub_plan_id s"
    and "\<forall>s\<in>set (subscriptions_tbl db). \<forall>p\<in>set (plans_tbl db).
               sub_member_id s = mid \<and> sub_status s = ACTIVE \<and> plan_id p = sub_plan_id s
               \<longrightarrow> plan_type p \<noteq> VIP"
  shows "base_score db mid = 100"
proof -
  from assms(1) obtain s p where "s \<in> set (subscriptions_tbl db)" "p \<in> set (plans_tbl db)"
    "sub_member_id s = mid" "sub_status s = ACTIVE" "plan_id p = sub_plan_id s"
    "base_score db mid = (if plan_type p = VIP then 1000 else 100)"
    by (rule base_score_some)
  then show ?thesis using assms(2) by auto
qed

lemma base_score_range: "base_score db mid \<in> {0, 100, 1000}"
  by (simp add: base_score_def split: option.splits)

lemma waiting_time_bonus_exact:
  "\<bar>now - created\<bar> < 1000000 * 3600000000 \<Longrightarrow>
     waiting_time_bonus now created = whole_hours (now - created)"
  unfolding waiting_time_bonus_def whole_hours_def by (rule bonus_exact)

lemma whole_hours_zero: "\<bar>d\<bar> < 3600000000 \<Longrightarrow> whole_hours d = 0"
  by (simp add: whole_hours_def)

lemma waiting_time_bonus_zero:
  assumes "\<bar>now' - now\<bar> < 3600000000"
  shows "waiting_time_bonus now' now = 0"
proof -
  have "\<bar>now' - now\<bar> < 1000000 * 3600000000" using assms by simp
  then have "waiting_time_bonus now' now = whole_hours (now' - now)"
    by (rule waiting_time_bonus_exact)
  then show ?thesis using whole_hours_zero[OF assms] by simp
qed

lemma waiting_time_bonus_bound:
  assumes "valid_datetime created" "valid_datetime now"
  shows "\<bar>waiting_time_bonus now created\<bar> \<le> 87649416"
proof -
  have "\<bar>now - created\<bar> \<le> 315537897599999999"
    using assms unfolding valid_datetime_def by linarith
  then show ?thesis unfolding waiting_time_bonus_def by (rule bonus_bound)
qed

lemma score_bound:
  assumes "valid_datetime created" "valid_datetime now"
  shows "- 87649416 \<le> calculate_priority_score db mid created now"
    and "calculate_priority_score db mid created now \<le> 87650416"
  using waiting_time_bonus_bound[OF assms] base_score_range[of db mid]
  by (auto simp: calculate_priority_score_def)

lemma bonus_at_544_years: "py_int (hours_of 17179869599999999) = 4772186"
  by code_simp

lemma bonus_at_max: "py_int (hours_of 315537897599999999) = 87649416"
  by code_simp

lemma ex_db_frozen_tables:
  "subscriptions_tbl ex_db_frozen =
     [\<lparr> sub_id = ''s1'', sub_member_id = ''m1'', sub_plan_id = ''p1'', sub_status = ACTIVE \<rparr>,
      \<lparr> sub_id = ''s2'', sub_member_id = ''m2'', sub_plan_id = ''p2'', sub_status = ACTIVE \<rparr>,
      \<lparr> sub_id = ''s3'', sub_member_id = ''m3'', sub_plan_id = ''p2'', sub_status = FROZEN \<rparr>]"
  "plans_tbl ex_db_frozen = [\<lparr> plan_id = ''p1'', plan_type = MONTHLY \<rparr>,
                             \<lparr> plan_id = ''p2'', plan_type = VIP \<rparr>]"
  by (simp_all add: ex_db_frozen_def ex_db_one_def ex_db_def)

lemma ex_db_base: "base_score ex_db ''m3'' = 0" "base_score ex_db ''m2'' = 1000"
  by (simp_all add: base_score_def active_subscriptions_def first_def ex_db_def)

section \<open>Runs of add_to_waiting_list on the examples\<close>

text \<open>The VIP member joins the queue of one: the entry goes to position 1 and the member
  who was waiting moves to position 2.\<close>

lemma ex_add_vip:
  "add_to_waiting_list ex_db_one ''S'' ''m2'' 20 21 ''w2'' = (Inr Detached, ex_db)"
  by (simp add: add_to_waiting_list_def ex_db_one_def ex_db_def ex_entry_def first_def
        waiting_entries_def is_waiting_def calculate_priority_score_def base_score_def
        active_subscriptions_def waiting_time_bonus_zero insertion_step_def shift_entry_def Let_def)

text \<open>Whatever a successful call returns, no column of it can be read.\<close>

lemma add_result_detached:
  "add_to_waiting_list db sid mid now now' nid = (Inr obj, db') \<Longrightarrow>
     read_column position obj = Inl DetachedInstanceError"
  by (drule add_to_waiting_list_Inr(1)) (simp add: read_column_def)



text \<open>The two clock readings of one call are an hour apart.\<close>

lemma ex_add_lapsed:
  "add_to_waiting_list ex_db_lapsed ''S'' ''m3'' 30 3600000030 ''w3''
     = (Inr Detached,
        ex_db_lapsed\<lparr>waiting_list_tbl :=
          [ex_entry ''w1'' ''S'' ''m1'' WAITING 2 0 10,
           ex_entry ''w3'' ''S'' ''m3'' WAITING 1 1 30]\<rparr>)"
  by (simp add: add_to_waiting_list_def ex_db_lapsed_def ex_db_def ex_entry_def first_def
        waiting_entries_def is_waiting_def calculate_priority_score_def base_score_def
        active_subscriptions_def waiting_time_bonus_exact whole_hours_def insertion_step_def
        shift_entry_def Let_def)

section \<open>Columns that the operations do not write\<close>

lemma shift_entry_fields [simp]:
  "priority_score (shift_entry sid fp e) = priority_score e"
  "created_at (shift_entry sid fp e) = created_at e"
  "wl_id (shift_entry sid fp e) = wl_id e"
  by (simp_all add: shift_entry_def)

lemma priority_score_promote_row [simp]:
  "priority_score (promote_row sid fid now dl e) = priority_score e"
  by (simp add: promote_row_def close_gap_def assign_entry_def)

lemma priority_score_set_status [simp]:
  "priority_score (set_status wid st e) = priority_score e"
  by (simp add: set_status_def)

section \<open>Claims\<close>

subsection \<open>The invariant under every operation\<close>

lemma ex_unique: "unique_ids (waiting_list_tbl ex_db)"
  by (simp add: unique_ids_def ex_db_def ex_entry_def)

lemma ex_dense: "dense (waiting_list_tbl ex_db) ''S''"
  by (auto simp: dense_def dense_positions_def waiting_positions_def waiting_entries_def
        is_waiting_def ex_db_def ex_entry_def)

text \<open>
  Claim C1. In a table with unique primary keys, if the positions of the WAITING rows of a
  session are exactly 1 to N without duplicates, they still are after
  \<^verbatim>\<open>add_to_waiting_list\<close>, \<^verbatim>\<open>promote_from_queue\<close>, \<^verbatim>\<open>confirm_assignment\<close> and
  \<^verbatim>\<open>check_expired_assignments\<close>, whatever their arguments and outcome, and whichever
  session they are called for. The empty table has the property, so it holds in every
  state that these operations reach from it.
\<close>

theorem dense_position_invariant:
  assumes "unique_ids (waiting_list_tbl db)" and "dense (waiting_list_tbl db) s"
  shows "dense (waiting_list_tbl (snd (add_to_waiting_list db sid mid now now' nid))) s
       \<and> dense (waiting_list_tbl (snd (promote_from_queue db sid h now))) s
       \<and> dense (waiting_list_tbl (snd (confirm_assignment db wid now np ne nc nid))) s
       \<and> dense (waiting_list_tbl (snd (check_expired_assignments db scope now clk))) s
       \<and> dense [] s"
proof -
  have "dense [] s"
    by (simp add: dense_def dense_positions_def waiting_positions_def waiting_entries_def)
  then show ?thesis
    using add_preserves_dense[OF assms(2)] promote_preserves_dense[OF assms]
          confirm_preserves_dense[OF assms] sweep_preserves_dense[OF assms]
    by blast
qed

theorem dense_position_invariant_witness:
  "unique_ids (waiting_list_tbl ex_db) \<and> dense (waiting_list_tbl ex_db) ''S''
   \<and> dense (waiting_list_tbl (snd (add_to_waiting_list ex_db ''S'' ''m3'' 30 31 ''w3''))) ''S''
   \<and> dense (waiting_list_tbl (snd (promote_from_queue ex_db ''S'' 24 30))) ''S''
   \<and> dense (waiting_list_tbl (snd (confirm_assignment ex_db ''w1'' 30 31 32 33 ''w3''))) ''S''
   \<and> dense (waiting_list_tbl (snd (check_expired_assignments ex_db None 30 (\<lambda>k. 31)))) ''S''"
  using dense_position_invariant[OF ex_unique ex_dense,
          of "''S''" "''m3''" 30 31 "''w3''" 24 "''w1''" 31 32 33 None "\<lambda>k. 31"]
        ex_unique ex_dense
  by simp

subsection \<open>Failures of add_to_waiting_list\<close>

lemma first_filter_None: "first (filter P xs) = None \<longleftrightarrow> (\<forall>x\<in>set xs. \<not> P x)"
  by (simp add: first_None_iff filter_empty_conv)

lemma session_missing_iff: "session_missing db sid \<longleftrightarrow> find_session db sid = None"
  by (auto simp: session_missing_def find_session_def first_filter_None)

text \<open>
  Claim C8. \<^verbatim>\<open>add_to_waiting_list\<close> checks, in this order: the session exists
  (NotFoundError), its registration is not closed (AppError), the member exists
  (NotFoundError), the member holds no REGISTERED enrollment for the session
  (DuplicateError), the member has no WAITING or ASSIGNED entry for it (DuplicateError).
  The first check that fails decides the exception. Whenever one of the five conditions
  holds the call fails, and every failing call leaves the database as it was.
\<close>

theorem add_failures:
  "(session_missing db sid \<longrightarrow>
      fst (add_to_waiting_list db sid mid now now' nid)
        = Inl (NotFoundError ''Class session not found''))
   \<and> (registration_closed db sid \<longrightarrow>
      fst (add_to_waiting_list db sid mid now now' nid)
        = Inl (AppError ''Session registration is closed''))
   \<and> (\<not> session_missing db sid \<and> \<not> registration_closed db sid \<and> member_missing db mid \<longrightarrow>
      fst (add_to_waiting_list db sid mid now now' nid) = Inl (NotFoundError ''Member not found''))
   \<and> (\<not> session_missing db sid \<and> \<not> registration_closed db sid \<and> \<not> member_missing db mid
        \<and> already_enrolled db sid mid \<longrightarrow>
      fst (add_to_waiting_list db sid mid now now' nid)
        = Inl (DuplicateError ''Member is already enrolled in this session''))
   \<and> (\<not> session_missing db sid \<and> \<not> registration_closed db sid \<and> \<not> member_missing db mid
        \<and> \<not> already_enrolled db sid mid \<and> already_queued db sid mid \<longrightarrow>
      fst (add_to_waiting_list db sid mid now now' nid)
        = Inl (DuplicateError ''Member is already on the waiting list''))
   \<and> (session_missing db sid \<or> registration_closed db sid \<or> member_missing db mid
        \<or> already_enrolled db sid mid \<or> already_queued db sid mid \<longrightarrow>
      (\<exists>err. fst (add_to_waiting_list db sid mid now now' nid) = Inl err))
   \<and> (\<forall>err. fst (add_to_waiting_list db sid mid now now' nid) = Inl err \<longrightarrow>
        snd (add_to_waiting_list db sid mid now now' nid) = db)"
proof -
  have m: "member_missing db mid \<longleftrightarrow> first (filter (\<lambda>m. m_id m = mid) (members_tbl db)) = None"
    by (auto simp: member_missing_def first_filter_None)
  have e: "already_enrolled db sid mid \<longleftrightarrow>
             first (filter (\<lambda>e. en_class_session_id e = sid \<and> en_member_id e = mid
                                 \<and> en_status e = REGISTERED) (enrollment_tbl db)) \<noteq> None"
    by (auto simp: already_enrolled_def first_filter_None)
  have q: "already_queued db sid mid \<longleftrightarrow>
             first (filter (\<lambda>e. class_session_id e = sid \<and> member_id e = mid
                                 \<and> status e \<in> {WAITING, ASSIGNED}) (waiting_list_tbl db)) \<noteq> None"
    by (auto simp: already_queued_def first_filter_None)
  have unchanged: "\<forall>err. fst (add_to_waiting_list db sid mid now now' nid) = Inl err \<longrightarrow>
        snd (add_to_waiting_list db sid mid now now' nid) = db"
    by (metis add_to_waiting_list_Inl prod.collapse)
  show ?thesis
  proof (cases "find_session db sid")
    case None
    then have "fst (add_to_waiting_list db sid mid now now' nid)
                 = Inl (NotFoundError ''Class session not found'')"
      by (simp add: add_to_waiting_list_def find_session_def)
    then show ?thesis
      using None unchanged by (simp add: session_missing_iff registration_closed_def)
  next
    case (Some cs)
    then have s: "\<not> session_missing db sid" by (simp add: session_missing_iff)
    have c: "registration_closed db sid \<longleftrightarrow> cs_status cs = CLOSED"
      using Some by (simp add: registration_closed_def)
    have f: "first (filter (\<lambda>c. cs_id c = sid) (class_session_tbl db)) = Some cs"
      using Some by (simp add: find_session_def)
    show ?thesis
      using unchanged s
      unfolding c m e q
      by (auto simp: add_to_waiting_list_def f Let_def)
  qed
qed

theorem add_failures_witness:
  "session_missing ex_db ''X''
   \<and> fst (add_to_waiting_list ex_db ''X'' ''m3'' 30 31 ''w3'')
       = Inl (NotFoundError ''Class session not found'')
   \<and> registration_closed (ex_db\<lparr>class_session_tbl := [\<lparr>cs_id = ''S'', cs_status = CLOSED\<rparr>]\<rparr>) ''S''
   \<and> fst (add_to_waiting_list (ex_db\<lparr>class_session_tbl := [\<lparr>cs_id = ''S'', cs_status = CLOSED\<rparr>]\<rparr>)
             ''S'' ''m9'' 30 31 ''w3'')
       = Inl (AppError ''Session registration is closed'')
   \<and> member_missing ex_db ''m9''
   \<and> fst (add_to_waiting_list ex_db ''S'' ''m9'' 30 31 ''w3'') = Inl (NotFoundError ''Member not found'')
   \<and> already_queued ex_db ''S'' ''m1''
   \<and> fst (add_to_waiting_list ex_db ''S'' ''m1'' 30 31 ''w3'')
       = Inl (DuplicateError ''Member is already on the waiting list'')
   \<and> snd (add_to_waiting_list ex_db ''S'' ''m1'' 30 31 ''w3'') = ex_db"
proof -
  have h: "session_missing ex_db ''X''" "\<not> session_missing ex_db ''S''"
    "registration_closed (ex_db\<lparr>class_session_tbl := [\<lparr>cs_id = ''S'', cs_status = CLOSED\<rparr>]\<rparr>) ''S''"
    "\<not> registration_closed ex_db ''S''"
    "member_missing ex_db ''m9''" "\<not> member_missing ex_db ''m1''"
    "\<not> already_enrolled ex_db ''S'' ''m1''" "already_queued ex_db ''S'' ''m1''"
    by (simp_all add: session_missing_def registration_closed_def find_session_def first_def
          member_missing_def already_enrolled_def already_queued_def ex_db_def ex_entry_def)
  show ?thesis
    using add_failures[of ex_db "''X''" "''m3''" 30 31 "''w3''"]
          add_failures[of "ex_db\<lparr>class_session_tbl := [\<lparr>cs_id = ''S'', cs_status = CLOSED\<rparr>]\<rparr>"
                          "''S''" "''m9''" 30 31 "''w3''"]
          add_failures[of ex_db "''S''" "''m9''" 30 31 "''w3''"]
          add_failures[of ex_db "''S''" "''m1''" 30 31 "''w3''"]
          h
    by simp
qed

subsection \<open>Promotion of the head\<close>

lemma filter_id_singleton:
  "unique_ids tbl \<Longrightarrow> f \<in> set tbl \<Longrightarrow> filter (\<lambda>e. wl_id e = wl_id f) tbl = [f]"
proof (induction tbl)
  case Nil
  then show ?case by simp
next
  case (Cons a tbl)
  have u: "unique_ids tbl" and na: "wl_id a \<notin> wl_id ` set tbl"
    using Cons.prems(1) by (simp_all add: unique_ids_def)
  show ?case
  proof (cases "f = a")
    case True
    have "filter (\<lambda>e. wl_id e = wl_id a) tbl = []"
      using na by (auto simp: filter_empty_conv image_iff)
    then show ?thesis using True by simp
  next
    case False
    then have "f \<in> set tbl" using Cons.prems(2) by simp
    moreover from this have "wl_id a \<noteq> wl_id f" using na by auto
    ultimately show ?thesis using Cons.IH[OF u] by simp
  qed
qed

lemma dense_others_ge2:
  assumes "dense tbl sid" "first (order_by_position (waiting_entries tbl sid)) = Some f"
    and "e \<in> set (waiting_entries tbl sid)" "e \<noteq> f"
  shows "2 \<le> position e"
proof -
  let ?W = "waiting_entries tbl sid"
  have p1: "position f = 1" using dense_head[OF assms(1,2)] .
  have fW: "f \<in> set ?W" using first_order_by_position(1)[OF assms(2)] .
  have inj: "inj_on position (set ?W)"
    using assms(1) by (simp add: dense_def dense_positions_def waiting_positions_def distinct_map)
  have "position e \<noteq> 1" using inj assms(3,4) fW p1 by (auto simp: inj_on_def)
  moreover have "1 \<le> position e" using dense_waiting_ge1[OF assms(1,3)] .
  ultimately show ?thesis by simp
qed

lemma promote_row_head:
  "is_waiting sid f \<Longrightarrow> promote_row sid (wl_id f) now dl f
     = f\<lparr>status := ASSIGNED, assigned_at := Some now, approval_deadline := Some dl\<rparr>"
  by (simp add: promote_row_def close_gap_def assign_entry_def is_waiting_def)

lemma length_waiting_promote:
  assumes "unique_ids tbl" "f \<in> set (waiting_entries tbl sid)"
  shows "length (waiting_entries (map (promote_row sid (wl_id f) now dl) tbl) sid) + 1
           = length (waiting_entries tbl sid)"
proof -
  let ?W = "waiting_entries tbl sid"
  have u: "unique_ids ?W"
    using assms(1) unfolding unique_ids_def waiting_entries_def by (rule distinct_map_filter)
  have "length ?W = length (filter (\<lambda>e. wl_id e = wl_id f) ?W)
                    + length (filter (\<lambda>e. wl_id e \<noteq> wl_id f) ?W)"
    using sum_length_filter_compl[of "\<lambda>e. wl_id e = wl_id f" ?W] by simp
  moreover have "filter (\<lambda>e. wl_id e = wl_id f) ?W = [f]"
    using filter_id_singleton[OF u assms(2)] .
  moreover have "filter (\<lambda>e. is_waiting sid e \<and> wl_id e \<noteq> wl_id f) tbl
                 = filter (\<lambda>e. wl_id e \<noteq> wl_id f) ?W"
    by (simp add: waiting_entries_def conj_commute)
  ultimately show ?thesis by (simp add: waiting_entries_promote)
qed

text \<open>
  Claim C5. On a session without WAITING rows \<^verbatim>\<open>promote_from_queue\<close> returns None and
  the database as it was. On a session with WAITING rows, in a table with unique keys and
  dense positions, there is a WAITING row \<open>f\<close> of position 1, the lowest; the call returns
  it as ASSIGNED with \<open>assigned_at = now\<close> and the deadline \<open>now\<close> plus the hold (24 hours by
  default); in the table exactly that row is replaced by the returned one, every other
  WAITING row of the session has its position lowered by one, and no other row changes;
  one row fewer is WAITING and the positions are dense again.
\<close>

theorem promote_head:
  "(waiting_entries (waiting_list_tbl db) sid = [] \<longrightarrow>
      promote_from_queue db sid h now = (None, db))
   \<and> (unique_ids (waiting_list_tbl db) \<and> dense (waiting_list_tbl db) sid
        \<and> waiting_entries (waiting_list_tbl db) sid \<noteq> [] \<longrightarrow>
      (\<exists>f\<in>set (waiting_entries (waiting_list_tbl db) sid).
         position f = 1
         \<and> (\<forall>e\<in>set (waiting_entries (waiting_list_tbl db) sid). position f \<le> position e)
         \<and> promote_from_queue db sid h now =
             (Some (f\<lparr>status := ASSIGNED, assigned_at := Some now,
                      approval_deadline := Some (now + h * 3600000000)\<rparr>),
              db\<lparr>waiting_list_tbl :=
                   map (\<lambda>e. if e = f
                             then f\<lparr>status := ASSIGNED, assigned_at := Some now,
                                    approval_deadline := Some (now + h * 3600000000)\<rparr>
                             else if is_waiting sid e then e\<lparr>position := position e - 1\<rparr>
                             else e)
                       (waiting_list_tbl db)\<rparr>)
         \<and> length (waiting_entries (waiting_list_tbl (snd (promote_from_queue db sid h now))) sid) + 1
             = length (waiting_entries (waiting_list_tbl db) sid)
         \<and> dense (waiting_list_tbl (snd (promote_from_queue db sid h now))) sid))
   \<and> approval_deadline_hours_default = 24"
proof (intro conjI impI)
  assume "waiting_entries (waiting_list_tbl db) sid = []"
  then show "promote_from_queue db sid h now = (None, db)" by (rule promote_from_queue_empty)
next
  show "approval_deadline_hours_default = 24" by (simp add: approval_deadline_hours_default_def)
next
  let ?tbl = "waiting_list_tbl db"
  let ?W = "waiting_entries ?tbl sid"
  let ?dl = "now + timedelta_hours h"
  assume a: "unique_ids ?tbl \<and> dense ?tbl sid \<and> ?W \<noteq> []"
  then have u: "unique_ids ?tbl" and d: "dense ?tbl sid" and ne: "?W \<noteq> []" by simp_all
  from ne obtain f where f: "first (order_by_position ?W) = Some f"
    and eq: "promote_from_queue db sid h now =
           (Some (assign_entry (wl_id f) now ?dl f),
            db\<lparr>waiting_list_tbl := map (promote_row sid (wl_id f) now ?dl) ?tbl\<rparr>)"
    by (rule promote_from_queue_nonempty)
  note fo = first_order_by_position[OF f]
  have fin: "f \<in> set ?tbl" and fw: "is_waiting sid f"
    using fo(1) by (auto simp: waiting_entries_def)
  let ?f' = "f\<lparr>status := ASSIGNED, assigned_at := Some now,
               approval_deadline := Some (now + h * 3600000000)\<rparr>"
  have r1: "assign_entry (wl_id f) now ?dl f = ?f'"
    by (simp add: assign_entry_def timedelta_hours_def)
  have r2: "map (promote_row sid (wl_id f) now ?dl) ?tbl
            = map (\<lambda>e. if e = f then ?f'
                        else if is_waiting sid e then e\<lparr>position := position e - 1\<rparr> else e) ?tbl"
  proof (rule map_cong[OF refl])
    fix e assume e: "e \<in> set ?tbl"
    show "promote_row sid (wl_id f) now ?dl e
          = (if e = f then ?f'
             else if is_waiting sid e then e\<lparr>position := position e - 1\<rparr> else e)"
    proof (cases "e = f")
      case True
      then show ?thesis using promote_row_head[OF fw, of now ?dl] by (simp add: timedelta_hours_def)
    next
      case False
      then have ni: "wl_id e \<noteq> wl_id f" using unique_ids_eq[OF u e fin] by auto
      show ?thesis
      proof (cases "is_waiting sid e")
        case True
        then have "e \<in> set ?W" using e by (simp add: waiting_entries_def)
        then have "2 \<le> position e" using dense_others_ge2[OF d f _ False] by simp
        then show ?thesis
          using False True ni by (simp add: promote_row_def close_gap_def assign_entry_def)
      next
        case False
        then show ?thesis using \<open>e \<noteq> f\<close> ni by (simp add: promote_row_other)
      qed
    qed
  qed
  have len: "length (waiting_entries (waiting_list_tbl (snd (promote_from_queue db sid h now))) sid) + 1
             = length ?W"
    using length_waiting_promote[OF u fo(1), of now ?dl] by (simp add: eq)
  have dn: "dense (waiting_list_tbl (snd (promote_from_queue db sid h now))) sid"
    using promote_preserves_dense[OF u d] .
  have "position f = 1" using dense_head[OF d f] .
  with fo(2) eq r1 r2 len dn
  have "position f = 1
         \<and> (\<forall>e\<in>set ?W. position f \<le> position e)
         \<and> promote_from_queue db sid h now =
             (Some ?f',
              db\<lparr>waiting_list_tbl :=
                   map (\<lambda>e. if e = f then ?f'
                             else if is_waiting sid e then e\<lparr>position := position e - 1\<rparr>
                             else e) ?tbl\<rparr>)
         \<and> length (waiting_entries (waiting_list_tbl (snd (promote_from_queue db sid h now))) sid) + 1
             = length ?W
         \<and> dense (waiting_list_tbl (snd (promote_from_queue db sid h now))) sid"
    by simp
  with fo(1) show "\<exists>f\<in>set ?W.
         position f = 1
         \<and> (\<forall>e\<in>set ?W. position f \<le> position e)
         \<and> promote_from_queue db sid h now =
             (Some (f\<lparr>status := ASSIGNED, assigned_at := Some now,
                      approval_deadline := Some (now + h * 3600000000)\<rparr>),
              db\<lparr>waiting_list_tbl :=
                   map (\<lambda>e. if e = f
                             then f\<lparr>status := ASSIGNED, assigned_at := Some now,
                                    approval_deadline := Some (now + h * 3600000000)\<rparr>
                             else if is_waiting sid e then e\<lparr>position := position e - 1\<rparr>
                             else e) ?tbl\<rparr>)
         \<and> length (waiting_entries (waiting_list_tbl (snd (promote_from_queue db sid h now))) sid) + 1
             = length ?W
         \<and> dense (waiting_list_tbl (snd (promote_from_queue db sid h now))) sid"
    by (rule bexI[rotated])
qed

theorem promote_head_witness:
  "waiting_entries (waiting_list_tbl ex_db) ''X'' = []
   \<and> promote_from_queue ex_db ''X'' 24 30 = (None, ex_db)
   \<and> unique_ids (waiting_list_tbl ex_db) \<and> dense (waiting_list_tbl ex_db) ''S''
   \<and> waiting_entries (waiting_list_tbl ex_db) ''S'' \<noteq> []
   \<and> length (waiting_entries (waiting_list_tbl (snd (promote_from_queue ex_db ''S'' 24 30))) ''S'') + 1
       = length (waiting_entries (waiting_list_tbl ex_db) ''S'')
   \<and> dense (waiting_list_tbl (snd (promote_from_queue ex_db ''S'' 24 30))) ''S''"
proof -
  have w: "waiting_entries (waiting_list_tbl ex_db) ''X'' = []"
    "waiting_entries (waiting_list_tbl ex_db) ''S'' \<noteq> []"
    by (simp_all add: waiting_entries_def is_waiting_def ex_db_def ex_entry_def)
  show ?thesis
    using promote_head[of ex_db "''X''" 24 30] promote_head[of ex_db "''S''" 24 30]
          w ex_unique ex_dense
    by blast
qed

subsection \<open>Confirmation after the deadline\<close>

lemma wl_id_set_status [simp]: "wl_id (set_status wid st e) = wl_id e"
  by (simp add: set_status_def)

lemma confirm_expired_result:
  assumes "first (filter (\<lambda>e. wl_id e = wid) (waiting_list_tbl db)) = Some w"
    "status w = ASSIGNED" "approval_deadline w = Some d" "d < now"
  shows "confirm_assignment db wid now np ne nc nid =
           (Inl (AppError deadline_passed_msg),
            snd (promote_from_queue
                   (db\<lparr>waiting_list_tbl := map (set_status wid EXPIRED) (waiting_list_tbl db)\<rparr>)
                   (class_session_id w) approval_deadline_hours_default np))"
  using assms by (simp add: confirm_assignment_def Let_def)

lemma promote_keeps_enrollments:
  "enrollment_tbl (snd (promote_from_queue db sid h now)) = enrollment_tbl db"
proof (cases "waiting_entries (waiting_list_tbl db) sid = []")
  case True
  then show ?thesis by (simp add: promote_from_queue_empty)
next
  case False
  then obtain f where "promote_from_queue db sid h now =
           (Some (assign_entry (wl_id f) now (now + timedelta_hours h) f),
            db\<lparr>waiting_list_tbl :=
                 map (promote_row sid (wl_id f) now (now + timedelta_hours h)) (waiting_list_tbl db)\<rparr>)"
    by (rule promote_from_queue_nonempty)
  then show ?thesis by simp
qed

lemma newly_assigned_none:
  assumes "unique_ids tbl" "first (filter (\<lambda>e. wl_id e = wid) tbl) = Some w"
  shows "newly_assigned tbl (map (set_status wid EXPIRED) tbl) = []"
  unfolding newly_assigned_def filter_empty_conv
proof
  fix x assume "x \<in> set (map (set_status wid EXPIRED) tbl)"
  then obtain e where e: "e \<in> set tbl" and x: "x = set_status wid EXPIRED e" by auto
  show "\<not> (status x = ASSIGNED
            \<and> wl_id x \<notin> set (map wl_id (filter (\<lambda>x. status x = ASSIGNED) tbl)))"
  proof (cases "wl_id e = wid")
    case True
    then show ?thesis using x by (simp add: set_status_def)
  next
    case False
    then have "x = e" using x by (simp add: set_status_def)
    then show ?thesis using e by auto
  qed
qed

lemma newly_assigned_one:
  assumes "unique_ids tbl" "first (filter (\<lambda>e. wl_id e = wid) tbl) = Some w" "status w = ASSIGNED"
    and "f \<in> set tbl" "status f = WAITING"
  shows "newly_assigned tbl (map (promote_row sid (wl_id f) now dl) (map (set_status wid EXPIRED) tbl))
           = [promote_row sid (wl_id f) now dl f]"
proof -
  let ?g = "\<lambda>e. promote_row sid (wl_id f) now dl (set_status wid EXPIRED e)"
  let ?A = "set (map wl_id (filter (\<lambda>x. status x = ASSIGNED) tbl))"
  note wf = first_filter_id[OF assms(1,2)]
  have fne: "wl_id f \<noteq> wid" using wf(3)[OF assms(4)] assms(3,5) by auto
  have fA: "wl_id f \<notin> ?A"
  proof
    assume "wl_id f \<in> ?A"
    then obtain x where "x \<in> set tbl" "status x = ASSIGNED" "wl_id x = wl_id f" by auto
    then show False using unique_ids_eq[OF assms(1) _ assms(4), of x] assms(5) by auto
  qed
  have "filter (\<lambda>e. status e = ASSIGNED \<and> wl_id e \<notin> ?A) (map ?g tbl)
        = map ?g (filter (\<lambda>e. wl_id e = wl_id f) tbl)"
  proof (rule filter_map_changed)
    fix e assume e: "e \<in> set tbl"
    show "(status (?g e) = ASSIGNED \<and> wl_id (?g e) \<notin> ?A) = (wl_id e = wl_id f)"
    proof (cases "wl_id e = wl_id f")
      case True
      then show ?thesis using fA by (simp add: status_promote_row)
    next
      case False
      have "status (set_status wid EXPIRED e) = ASSIGNED \<Longrightarrow> wl_id e \<in> ?A"
        using e by (auto simp: set_status_def split: if_splits)
      then show ?thesis using False by (auto simp: status_promote_row)
    qed
  qed
  moreover have "filter (\<lambda>e. wl_id e = wl_id f) tbl = [f]"
    using filter_id_singleton[OF assms(1,4)] .
  moreover have "set_status wid EXPIRED f = f" using fne by (simp add: set_status_def)
  ultimately show ?thesis by (simp add: newly_assigned_def comp_def)
qed

text \<open>
  Claim C3. In a table with unique keys, \<^verbatim>\<open>confirm_assignment\<close> on an ASSIGNED entry
  whose deadline lies before the clock reading raises the AppError of the passed deadline;
  in the database after the call the entry is EXPIRED, the enrollments are those of
  before, and the rows that became ASSIGNED are: none when the session had no WAITING row,
  and otherwise exactly one, the WAITING row of lowest position of the same session, which
  is another row than the expired one.
\<close>

theorem confirm_after_deadline:
  assumes "unique_ids (waiting_list_tbl db)"
    and "first (filter (\<lambda>e. wl_id e = wid) (waiting_list_tbl db)) = Some w"
    and "status w = ASSIGNED" and "approval_deadline w = Some d" and "d < now"
  shows "fst (confirm_assignment db wid now np ne nc nid) = Inl (AppError deadline_passed_msg)
       \<and> enrollment_tbl (snd (confirm_assignment db wid now np ne nc nid)) = enrollment_tbl db
       \<and> filter (\<lambda>e. wl_id e = wid) (waiting_list_tbl (snd (confirm_assignment db wid now np ne nc nid)))
           = [w\<lparr>status := EXPIRED\<rparr>]
       \<and> (waiting_entries (waiting_list_tbl db) (class_session_id w) = [] \<longrightarrow>
            newly_assigned (waiting_list_tbl db)
              (waiting_list_tbl (snd (confirm_assignment db wid now np ne nc nid))) = [])
       \<and> (waiting_entries (waiting_list_tbl db) (class_session_id w) \<noteq> [] \<longrightarrow>
            (\<exists>f\<in>set (waiting_entries (waiting_list_tbl db) (class_session_id w)).
               (\<forall>e\<in>set (waiting_entries (waiting_list_tbl db) (class_session_id w)).
                  position f \<le> position e)
               \<and> wl_id f \<noteq> wid \<and> class_session_id f = class_session_id w
               \<and> newly_assigned (waiting_list_tbl db)
                    (waiting_list_tbl (snd (confirm_assignment db wid now np ne nc nid)))
                  = [f\<lparr>status := ASSIGNED, assigned_at := Some np,
                       approval_deadline := Some (np + 24 * 3600000000)\<rparr>]))"
proof -
  let ?tbl = "waiting_list_tbl db"
  let ?sid = "class_session_id w"
  let ?tbl1 = "map (set_status wid EXPIRED) ?tbl"
  let ?db1 = "db\<lparr>waiting_list_tbl := ?tbl1\<rparr>"
  let ?r = "confirm_assignment db wid now np ne nc nid"
  let ?dl = "np + timedelta_hours approval_deadline_hours_default"
  note wf = first_filter_id[OF assms(1,2)]
  have nw: "status w \<noteq> WAITING" using assms(3) by simp
  have res: "?r = (Inl (AppError deadline_passed_msg),
                   snd (promote_from_queue ?db1 ?sid approval_deadline_hours_default np))"
    using confirm_expired_result[OF assms(2-5)] .
  have u1: "unique_ids ?tbl1" using assms(1) by (simp add: unique_ids_set_status)
  have W1: "waiting_entries ?tbl1 ?sid = waiting_entries ?tbl ?sid"
    using waiting_entries_set_status[OF assms(1,2) nw, of EXPIRED ?sid] by simp
  have win1: "set_status wid EXPIRED w \<in> set ?tbl1" using wf(1) by simp
  have ex1: "filter (\<lambda>e. wl_id e = wid) ?tbl1 = [w\<lparr>status := EXPIRED\<rparr>]"
    using filter_id_singleton[OF u1 win1] wf(2) by (simp add: set_status_def)
  have c1: "fst ?r = Inl (AppError deadline_passed_msg)" by (simp add: res)
  have c2: "enrollment_tbl (snd ?r) = enrollment_tbl db"
    by (simp add: res promote_keeps_enrollments)
  show ?thesis
  proof (cases "waiting_entries ?tbl ?sid = []")
    case True
    then have p: "promote_from_queue ?db1 ?sid approval_deadline_hours_default np = (None, ?db1)"
      using W1 by (intro promote_from_queue_empty) simp
    have t: "waiting_list_tbl (snd ?r) = ?tbl1" by (simp add: res p)
    show ?thesis
      using c1 c2 True ex1 newly_assigned_none[OF assms(1,2)] unfolding t by simp
  next
    case False
    then have "waiting_entries (waiting_list_tbl ?db1) ?sid \<noteq> []" using W1 by simp
    then obtain f where f: "first (order_by_position (waiting_entries (waiting_list_tbl ?db1) ?sid)) = Some f"
      and eq: "promote_from_queue ?db1 ?sid approval_deadline_hours_default np =
           (Some (assign_entry (wl_id f) np ?dl f),
            ?db1\<lparr>waiting_list_tbl := map (promote_row ?sid (wl_id f) np ?dl) (waiting_list_tbl ?db1)\<rparr>)"
      by (rule promote_from_queue_nonempty)
    have f': "first (order_by_position (waiting_entries ?tbl ?sid)) = Some f"
      using f W1 by simp
    note fo = first_order_by_position[OF f']
    have fin: "f \<in> set ?tbl" and fw: "is_waiting ?sid f"
      using fo(1) by (auto simp: waiting_entries_def)
    have fs: "status f = WAITING" "class_session_id f = ?sid"
      using fw by (simp_all add: is_waiting_def)
    have fne: "wl_id f \<noteq> wid" using wf(3)[OF fin] assms(3) fs(1) by auto
    have t: "waiting_list_tbl (snd ?r) = map (promote_row ?sid (wl_id f) np ?dl) ?tbl1"
      by (simp add: res eq)
    have na: "newly_assigned ?tbl (waiting_list_tbl (snd ?r))
              = [f\<lparr>status := ASSIGNED, assigned_at := Some np,
                       approval_deadline := Some (np + 24 * 3600000000)\<rparr>]"
      unfolding t
      using newly_assigned_one[OF assms(1,2,3) fin fs(1), of ?sid np ?dl]
            promote_row_head[OF fw, of np ?dl]
      by (simp add: timedelta_hours_def approval_deadline_hours_default_def)
    have "filter (\<lambda>e. wl_id e = wid) (map (promote_row ?sid (wl_id f) np ?dl) ?tbl1)
          = map (promote_row ?sid (wl_id f) np ?dl) (filter (\<lambda>e. wl_id e = wid) ?tbl1)"
      by (rule filter_map_changed) simp
    also have "\<dots> = [w\<lparr>status := EXPIRED\<rparr>]"
      using fne wf(2) unfolding ex1
      by (simp add: promote_row_def close_gap_def assign_entry_def is_waiting_def)
    finally have c3: "filter (\<lambda>e. wl_id e = wid) (waiting_list_tbl (snd ?r)) = [w\<lparr>status := EXPIRED\<rparr>]"
      unfolding t .
    have "\<exists>f\<in>set (waiting_entries ?tbl ?sid).
               (\<forall>e\<in>set (waiting_entries ?tbl ?sid). position f \<le> position e)
               \<and> wl_id f \<noteq> wid \<and> class_session_id f = ?sid
               \<and> newly_assigned ?tbl (waiting_list_tbl (snd ?r))
                  = [f\<lparr>status := ASSIGNED, assigned_at := Some np,
                       approval_deadline := Some (np + 24 * 3600000000)\<rparr>]"
      using fo fne fs(2) na by blast
    then show ?thesis using c1 c2 c3 False by blast
  qed
qed

theorem confirm_after_deadline_witness:
  "unique_ids (waiting_list_tbl ex_db_held)
   \<and> first (filter (\<lambda>e. wl_id e = ''w2'') (waiting_list_tbl ex_db_held))
       = Some ((ex_entry ''w2'' ''S'' ''m2'' ASSIGNED 1 1000 20)
                 \<lparr>assigned_at := Some 30, approval_deadline := Some 86400000030\<rparr>)
   \<and> (86400000030 :: int) < 90000000000
   \<and> waiting_entries (waiting_list_tbl ex_db_held) ''S'' \<noteq> []
   \<and> fst (confirm_assignment ex_db_held ''w2'' 90000000000 90000000001 90000000002 90000000003 ''e1'')
       = Inl (AppError deadline_passed_msg)
   \<and> enrollment_tbl (snd (confirm_assignment ex_db_held ''w2'' 90000000000 90000000001
                              90000000002 90000000003 ''e1'')) = []"
proof -
  let ?w = "(ex_entry ''w2'' ''S'' ''m2'' ASSIGNED 1 1000 20)
                 \<lparr>assigned_at := Some 30, approval_deadline := Some 86400000030\<rparr>"
  have u: "unique_ids (waiting_list_tbl ex_db_held)"
    by (simp add: unique_ids_def ex_db_held_def ex_db_def ex_entry_def)
  have f: "first (filter (\<lambda>e. wl_id e = ''w2'') (waiting_list_tbl ex_db_held)) = Some ?w"
    by (simp add: first_def ex_db_held_def ex_db_def ex_entry_def)
  have s: "status ?w = ASSIGNED" and a: "approval_deadline ?w = Some 86400000030"
    by (simp_all add: ex_entry_def)
  have d: "(86400000030 :: int) < 90000000000" by simp
  have w: "waiting_entries (waiting_list_tbl ex_db_held) ''S'' \<noteq> []"
    by (simp add: waiting_entries_def is_waiting_def ex_db_held_def ex_db_def ex_entry_def)
  have e: "enrollment_tbl ex_db_held = []" by (simp add: ex_db_held_def ex_db_def)
  show ?thesis
    using confirm_after_deadline[OF u f s a d, of 90000000001 90000000002 90000000003 "''e1''"]
          u f d w e
    by simp
qed

subsection \<open>The sweep as the service calls it\<close>

text \<open>
  Claim C2. The service method reads the attribute \<^verbatim>\<open>expire_assignments\<close> of the
  repository, which the repository class does not define: on a database with one ASSIGNED
  entry past its deadline the service raises AttributeError and changes nothing, where the
  repository method \<^verbatim>\<open>check_expired_assignments\<close> on the same input expires that entry,
  promotes the next one and returns 1.
\<close>

theorem service_check_expired_raises:
  "service_check_expired_assignments ex_db_held None 90000000000 (\<lambda>k. 90000000001)
     = (Inl (AttributeError ''expire_assignments''), ex_db_held)
   \<and> fst (check_expired_assignments ex_db_held None 90000000000 (\<lambda>k. 90000000001)) = 1
   \<and> map status (waiting_list_tbl
        (snd (check_expired_assignments ex_db_held None 90000000000 (\<lambda>k. 90000000001))))
       = [ASSIGNED, EXPIRED]"
proof -
  have a: "service_check_expired_assignments ex_db_held None 90000000000 (\<lambda>k. 90000000001)
     = (Inl (AttributeError ''expire_assignments''), ex_db_held)"
    by (simp add: service_check_expired_assignments_def db_waiting_list_getattr_def)
  have b: "check_expired_assignments ex_db_held None 90000000000 (\<lambda>k. 90000000001)
     = (1, ex_db\<lparr>waiting_list_tbl :=
          [(ex_entry ''w1'' ''S'' ''m1'' ASSIGNED 1 100 10)
             \<lparr>assigned_at := Some 90000000001, approval_deadline := Some 176400000001\<rparr>,
           (ex_entry ''w2'' ''S'' ''m2'' EXPIRED 1 1000 20)
             \<lparr>assigned_at := Some 30, approval_deadline := Some 86400000030\<rparr>]\<rparr>)"
    by (simp add: check_expired_assignments_def promote_from_queue_def first_def
          order_by_position_def waiting_entries_def is_waiting_def assign_entry_def close_gap_def
          approval_deadline_hours_default_def timedelta_hours_def Let_def
          ex_db_held_def ex_db_def ex_entry_def)
  show ?thesis unfolding a b by (simp add: ex_entry_def)
qed

subsection \<open>Repeated promotion\<close>

lemma length_filter_disj:
  "(\<And>e. e \<in> set xs \<Longrightarrow> \<not> (P e \<and> R e)) \<Longrightarrow>
     length (filter (\<lambda>e. P e \<or> R e) xs) = length (filter P xs) + length (filter R xs)"
  by (induction xs) auto

lemma promote_adds_one_assigned:
  assumes "unique_ids tbl" "f \<in> set (waiting_entries tbl sid)"
  shows "length (assigned_entries (map (promote_row sid (wl_id f) now dl) tbl) sid)
           = length (assigned_entries tbl sid) + 1"
proof -
  let ?A = "\<lambda>e. class_session_id e = sid \<and> status e = ASSIGNED"
  have fin: "f \<in> set tbl" and fw: "is_waiting sid f"
    using assms(2) by (auto simp: waiting_entries_def)
  have "filter ?A (map (promote_row sid (wl_id f) now dl) tbl)
        = map (promote_row sid (wl_id f) now dl) (filter (\<lambda>e. wl_id e = wl_id f \<or> ?A e) tbl)"
  proof (rule filter_map_changed)
    fix e assume e: "e \<in> set tbl"
    show "(class_session_id (promote_row sid (wl_id f) now dl e) = sid
           \<and> status (promote_row sid (wl_id f) now dl e) = ASSIGNED)
          = (wl_id e = wl_id f \<or> ?A e)"
      using unique_ids_eq[OF assms(1) e fin] fw
      by (auto simp: status_promote_row is_waiting_def)
  qed
  then have "length (assigned_entries (map (promote_row sid (wl_id f) now dl) tbl) sid)
             = length (filter (\<lambda>e. wl_id e = wl_id f \<or> ?A e) tbl)"
    by (simp add: assigned_entries_def)
  also have "\<dots> = length (filter (\<lambda>e. wl_id e = wl_id f) tbl) + length (filter ?A tbl)"
  proof (rule length_filter_disj)
    fix e assume e: "e \<in> set tbl"
    show "\<not> (wl_id e = wl_id f \<and> ?A e)"
      using unique_ids_eq[OF assms(1) e fin] fw by (auto simp: is_waiting_def)
  qed
  finally show ?thesis
    using filter_id_singleton[OF assms(1) fin] by (simp add: assigned_entries_def)
qed

lemma promote_changes_table:
  assumes "unique_ids (waiting_list_tbl db)" "waiting_entries (waiting_list_tbl db) sid \<noteq> []"
  shows "length (waiting_entries (waiting_list_tbl (snd (promote_from_queue db sid h now))) sid) + 1
           = length (waiting_entries (waiting_list_tbl db) sid)"
    and "length (assigned_entries (waiting_list_tbl (snd (promote_from_queue db sid h now))) sid)
           = length (assigned_entries (waiting_list_tbl db) sid) + 1"
proof -
  from assms(2) obtain f
    where f: "first (order_by_position (waiting_entries (waiting_list_tbl db) sid)) = Some f"
    and eq: "promote_from_queue db sid h now =
           (Some (assign_entry (wl_id f) now (now + timedelta_hours h) f),
            db\<lparr>waiting_list_tbl :=
                 map (promote_row sid (wl_id f) now (now + timedelta_hours h)) (waiting_list_tbl db)\<rparr>)"
    by (rule promote_from_queue_nonempty)
  note fo = first_order_by_position(1)[OF f]
  show "length (waiting_entries (waiting_list_tbl (snd (promote_from_queue db sid h now))) sid) + 1
           = length (waiting_entries (waiting_list_tbl db) sid)"
    using length_waiting_promote[OF assms(1) fo] by (simp add: eq)
  show "length (assigned_entries (waiting_list_tbl (snd (promote_from_queue db sid h now))) sid)
           = length (assigned_entries (waiting_list_tbl db) sid) + 1"
    using promote_adds_one_assigned[OF assms(1) fo] by (simp add: eq)
qed

text \<open>
  Claim C6, as the code has it. \<^verbatim>\<open>promote_from_queue\<close> does not look at the ASSIGNED
  rows: in a table with unique keys, a call on a session with a WAITING row raises the
  number of ASSIGNED rows of the session by one, however many there were, and a call on a
  session without WAITING rows leaves it. A second call right after a first leaves the
  state of the first exactly when the session had at most one WAITING row.
\<close>

theorem promote_not_guarded:
  assumes "unique_ids (waiting_list_tbl db)"
  shows "length (assigned_entries (waiting_list_tbl (snd (promote_from_queue db sid h now))) sid)
           = length (assigned_entries (waiting_list_tbl db) sid)
             + (if waiting_entries (waiting_list_tbl db) sid = [] then 0 else 1)
       \<and> (snd (promote_from_queue (snd (promote_from_queue db sid h now)) sid h' now')
            = snd (promote_from_queue db sid h now)
          \<longleftrightarrow> length (waiting_entries (waiting_list_tbl db) sid) \<le> 1)"
proof (cases "waiting_entries (waiting_list_tbl db) sid = []")
  case True
  then show ?thesis by (simp add: promote_from_queue_empty)
next
  case False
  let ?db' = "snd (promote_from_queue db sid h now)"
  note c = promote_changes_table[OF assms False, of h now]
  have u': "unique_ids (waiting_list_tbl ?db')" using assms by (simp add: promote_preserves_unique_ids)
  have "snd (promote_from_queue ?db' sid h' now') = ?db'
        \<longleftrightarrow> waiting_entries (waiting_list_tbl ?db') sid = []"
  proof
    assume e: "snd (promote_from_queue ?db' sid h' now') = ?db'"
    show "waiting_entries (waiting_list_tbl ?db') sid = []"
    proof (rule ccontr)
      assume "waiting_entries (waiting_list_tbl ?db') sid \<noteq> []"
      from promote_changes_table(1)[OF u' this, of h' now'] show False unfolding e by simp
    qed
  next
    assume "waiting_entries (waiting_list_tbl ?db') sid = []"
    then show "snd (promote_from_queue ?db' sid h' now') = ?db'"
      by (simp add: promote_from_queue_empty)
  qed
  also have "\<dots> \<longleftrightarrow> length (waiting_entries (waiting_list_tbl ?db') sid) = 0"
    by simp
  also have "\<dots> \<longleftrightarrow> length (waiting_entries (waiting_list_tbl db) sid) \<le> 1"
    using c(1) by linarith
  finally show ?thesis using c(2) False by simp
qed

theorem promote_not_guarded_witness:
  "unique_ids (waiting_list_tbl ex_db)
   \<and> length (assigned_entries (waiting_list_tbl (snd (promote_from_queue ex_db ''S'' 24 30))) ''S'') = 1
   \<and> snd (promote_from_queue (snd (promote_from_queue ex_db ''S'' 24 30)) ''S'' 24 40)
       \<noteq> snd (promote_from_queue ex_db ''S'' 24 30)"
proof -
  have w: "waiting_entries (waiting_list_tbl ex_db) ''S''
             = [ex_entry ''w1'' ''S'' ''m1'' WAITING 2 100 10,
                ex_entry ''w2'' ''S'' ''m2'' WAITING 1 1000 20]"
    "assigned_entries (waiting_list_tbl ex_db) ''S'' = []"
    by (simp_all add: waiting_entries_def assigned_entries_def is_waiting_def ex_db_def ex_entry_def)
  show ?thesis
    using promote_not_guarded[OF ex_unique, of "''S''" 24 30 24 40] ex_unique
    by (simp add: w)
qed

theorem promote_twice_counterexample:
  "map status (waiting_list_tbl (snd (promote_from_queue ex_db_held ''S'' 24 40)))
     = [ASSIGNED, ASSIGNED]
   \<and> map status (waiting_list_tbl ex_db_held) = [WAITING, ASSIGNED]
   \<and> map class_session_id (waiting_list_tbl ex_db_held) = [''S'', ''S'']
   \<and> snd (promote_from_queue ex_db ''S'' 24 30) = ex_db_held
   \<and> snd (promote_from_queue (snd (promote_from_queue ex_db ''S'' 24 30)) ''S'' 24 40)
       \<noteq> snd (promote_from_queue ex_db ''S'' 24 30)"
proof -
  have a: "snd (promote_from_queue ex_db ''S'' 24 30) = ex_db_held"
    by (simp add: promote_from_queue_def first_def order_by_position_def waiting_entries_def
          is_waiting_def assign_entry_def close_gap_def timedelta_hours_def Let_def
          ex_db_held_def ex_db_def ex_entry_def)
  have b: "map status (waiting_list_tbl (snd (promote_from_queue ex_db_held ''S'' 24 40)))
     = [ASSIGNED, ASSIGNED]"
    by (simp add: promote_from_queue_def first_def order_by_position_def waiting_entries_def
          is_waiting_def assign_entry_def close_gap_def timedelta_hours_def Let_def
          ex_db_held_def ex_db_def ex_entry_def)
  have c: "map status (waiting_list_tbl ex_db_held) = [WAITING, ASSIGNED]"
    "map class_session_id (waiting_list_tbl ex_db_held) = [''S'', ''S'']"
    by (simp_all add: ex_db_held_def ex_db_def ex_entry_def)
  have "snd (promote_from_queue ex_db_held ''S'' 24 40) \<noteq> ex_db_held"
    using b c(1) by auto
  then show ?thesis using a b c by simp
qed

subsection \<open>The priority score\<close>

text \<open>
  Claim C7, as the code has it. The score is a tier base plus a bonus. The base is 0 for a
  member with no subscription of status ACTIVE (a frozen, expired or cancelled one does not
  count), 1000 when every ACTIVE subscription of the member is on a VIP plan and 100 when
  none is; it is always one of the three. The bonus is \<^verbatim>\<open>int\<close> of the hours computed
  in doubles. For two timestamps less than a million hours apart that is the number of whole
  hours between them, counted toward zero (negative when the enqueue time is the later
  one). For any two datetimes the score lies between -87649416 and 87650416.
\<close>

theorem priority_score_formula:
  "(\<exists>base. calculate_priority_score db mid created now = base + py_int (hours_of (now - created))
      \<and> base \<in> {0, 100, 1000}
      \<and> (\<not> (\<exists>s\<in>set (subscriptions_tbl db). \<exists>p\<in>set (plans_tbl db).
               sub_member_id s = mid \<and> sub_status s = ACTIVE \<and> plan_id p = sub_plan_id s)
           \<longrightarrow> base = 0)
      \<and> ((\<exists>s\<in>set (subscriptions_tbl db). \<exists>p\<in>set (plans_tbl db).
               sub_member_id s = mid \<and> sub_status s = ACTIVE \<and> plan_id p = sub_plan_id s)
          \<and> (\<forall>s\<in>set (subscriptions_tbl db). \<forall>p\<in>set (plans_tbl db).
               sub_member_id s = mid \<and> sub_status s = ACTIVE \<and> plan_id p = sub_plan_id s
               \<longrightarrow> plan_type p = VIP)
           \<longrightarrow> base = 1000)
      \<and> ((\<exists>s\<in>set (subscriptions_tbl db). \<exists>p\<in>set (plans_tbl db).
               sub_member_id s = mid \<and> sub_status s = ACTIVE \<and> plan_id p = sub_plan_id s)
          \<and> (\<forall>s\<in>set (subscriptions_tbl db). \<forall>p\<in>set (plans_tbl db).
               sub_member_id s = mid \<and> sub_status s = ACTIVE \<and> plan_id p = sub_plan_id s
               \<longrightarrow> plan_type p \<noteq> VIP)
           \<longrightarrow> base = 100))
   \<and> (\<bar>now - created\<bar> < 1000000 * 3600000000 \<longrightarrow>
        py_int (hours_of (now - created)) = whole_hours (now - created))
   \<and> (valid_datetime created \<and> valid_datetime now \<longrightarrow>
        - 87649416 \<le> calculate_priority_score db mid created now
        \<and> calculate_priority_score db mid created now \<le> 87650416)"
proof -
  have 1: "calculate_priority_score db mid created now
             = base_score db mid + py_int (hours_of (now - created))"
    by (simp add: calculate_priority_score_def waiting_time_bonus_def)
  have 2: "\<bar>now - created\<bar> < 1000000 * 3600000000 \<longrightarrow>
        py_int (hours_of (now - created)) = whole_hours (now - created)"
    using waiting_time_bonus_exact[of now created] by (simp add: waiting_time_bonus_def)
  have 3: "valid_datetime created \<and> valid_datetime now \<longrightarrow>
        - 87649416 \<le> calculate_priority_score db mid created now
        \<and> calculate_priority_score db mid created now \<le> 87650416"
    using score_bound[of created now db mid] by blast
  show ?thesis
    apply (intro conjI exI[of _ "base_score db mid"])
          apply (rule 1)
         apply (rule base_score_range)
        apply (rule impI, erule base_score_none)
       apply (rule impI, erule conjE, erule (1) base_score_vip)
      apply (rule impI, erule conjE, erule (1) base_score_other)
     apply (rule 2)
    apply (rule 3)
    done
qed

theorem priority_score_formula_witness:
  "calculate_priority_score ex_db_frozen ''m2'' 10 7200000015 = 1002
   \<and> calculate_priority_score ex_db_frozen ''m1'' 10 7200000015 = 102
   \<and> calculate_priority_score ex_db_frozen ''m3'' 10 7200000015 = 2
   \<and> calculate_priority_score ex_db_frozen ''m3'' 7200000015 10 = - 2
   \<and> valid_datetime 10 \<and> valid_datetime 7200000015
   \<and> calculate_priority_score ex_db_frozen ''m2'' 10 7200000015 \<le> 87650416"
  using priority_score_formula[of ex_db_frozen "''m2''" 10 7200000015]
        priority_score_formula[of ex_db_frozen "''m1''" 10 7200000015]
        priority_score_formula[of ex_db_frozen "''m3''" 10 7200000015]
        priority_score_formula[of ex_db_frozen "''m3''" 7200000015 10]
  by (simp add: ex_db_frozen_tables whole_hours_def valid_datetime_def)

text \<open>The claim fails on two counts. A member without a subscription, enqueued at the
  first instant of the calendar and scored 17179869599999999 microseconds later (in the
  year 545), gets 4772186, one more than the 4772185 whole hours that have elapsed: the
  seconds are rounded up to 17179869600 before the division by 3600. And the score of the
  VIP member never exceeds 87650416, which it reaches over the whole range of the
  calendar.\<close>

theorem priority_score_formula_counterexample:
  "valid_datetime 0 \<and> valid_datetime 17179869599999999
   \<and> calculate_priority_score ex_db ''m3'' 0 17179869599999999 = 4772186
   \<and> (17179869599999999 - 0) div 3600000000 = (4772185 :: int)
   \<and> calculate_priority_score ex_db ''m2'' 0 315537897599999999 = 87650416
   \<and> \<not> (\<exists>created now. valid_datetime created \<and> valid_datetime now
          \<and> 87650416 < calculate_priority_score ex_db ''m2'' created now)"
proof -
  have "\<not> (\<exists>created now. valid_datetime created \<and> valid_datetime now
          \<and> 87650416 < calculate_priority_score ex_db ''m2'' created now)"
    using score_bound(2)[of _ _ ex_db "''m2''"] by (meson not_less)
  then show ?thesis
    by (simp add: calculate_priority_score_def waiting_time_bonus_def ex_db_base
                  bonus_at_544_years bonus_at_max valid_datetime_def)
qed

subsection \<open>Stored scores\<close>

lemma promote_keeps_scores:
  "map (\<lambda>e. (wl_id e, priority_score e)) (waiting_list_tbl (snd (promote_from_queue db sid h now)))
     = map (\<lambda>e. (wl_id e, priority_score e)) (waiting_list_tbl db)"
proof (cases "waiting_entries (waiting_list_tbl db) sid = []")
  case True
  then show ?thesis by (simp add: promote_from_queue_empty)
next
  case False
  then obtain f where "promote_from_queue db sid h now =
           (Some (assign_entry (wl_id f) now (now + timedelta_hours h) f),
            db\<lparr>waiting_list_tbl :=
                 map (promote_row sid (wl_id f) now (now + timedelta_hours h)) (waiting_list_tbl db)\<rparr>)"
    by (rule promote_from_queue_nonempty)
  then show ?thesis by (simp add: comp_def)
qed

lemma promote_each_keeps_scores:
  "map (\<lambda>e. (wl_id e, priority_score e)) (waiting_list_tbl (promote_each db clk es))
     = map (\<lambda>e. (wl_id e, priority_score e)) (waiting_list_tbl db)"
  by (induction es arbitrary: db clk) (simp_all add: promote_keeps_scores)

lemma confirm_keeps_scores:
  "map (\<lambda>e. (wl_id e, priority_score e))
       (waiting_list_tbl (snd (confirm_assignment db wid now np ne nc nid)))
     = map (\<lambda>e. (wl_id e, priority_score e)) (waiting_list_tbl db)"
proof -
  have b: "map (\<lambda>e. (wl_id e, priority_score e))
             (map (\<lambda>e. if wl_id e = wid then e\<lparr>status := CONFIRMED, confirmed_at := Some nc\<rparr> else e)
                  (waiting_list_tbl db))
           = map (\<lambda>e. (wl_id e, priority_score e)) (waiting_list_tbl db)"
    by (simp add: comp_def if_distrib cong: if_cong)
  show ?thesis
    using promote_keeps_scores[of "db\<lparr>waiting_list_tbl := map (set_status wid EXPIRED) (waiting_list_tbl db)\<rparr>"]
    by (simp add: confirm_assignment_def Let_def b comp_def split: option.splits)
qed

lemma sweep_keeps_scores:
  "map (\<lambda>e. (wl_id e, priority_score e))
       (waiting_list_tbl (snd (check_expired_assignments db scope now clk)))
     = map (\<lambda>e. (wl_id e, priority_score e)) (waiting_list_tbl db)"
  by (simp add: check_expired_assignments_def Let_def comp_def if_distrib promote_each_keeps_scores
           cong: if_cong)

lemma add_keeps_scores:
  "add_to_waiting_list db sid mid now now' nid = (Inr obj, db') \<Longrightarrow>
     map (\<lambda>e. (wl_id e, priority_score e)) (waiting_list_tbl db')
       = map (\<lambda>e. (wl_id e, priority_score e)) (waiting_list_tbl db)
         @ [(nid, base_score db mid + py_int (hours_of (now' - now)))]"
  by (drule add_to_waiting_list_Inr(2))
     (simp add: comp_def wl_entry_of_def calculate_priority_score_def waiting_time_bonus_def)

text \<open>
  Claim C10, as the code has it. \<^verbatim>\<open>add_to_waiting_list\<close> reads the clock twice: once for
  \<open>created_at\<close> and once more inside the calculator. The score it stores for the new row is
  the tier base (0 without a subscription of status ACTIVE, 1000 when every ACTIVE
  subscription of the member is on a VIP plan, 100 when none is) plus \<^verbatim>\<open>int\<close> of the
  hours between the two readings: the whole hours between them when they are less than a
  million hours apart, and 0, so that the stored score is the tier base alone, when they
  are less than one hour apart. No operation writes the score of an existing row: add
  leaves the rows it shifts with their scores, and promote, confirm and the sweep leave
  every row of any table with its score.
\<close>

theorem stored_score_is_base:
  assumes "add_to_waiting_list db sid mid now now' nid = (Inr obj, db')"
  shows "\<exists>base. base \<in> {0, 100, 1000}
      \<and> (\<not> (\<exists>s\<in>set (subscriptions_tbl db). \<exists>p\<in>set (plans_tbl db).
               sub_member_id s = mid \<and> sub_status s = ACTIVE \<and> plan_id p = sub_plan_id s)
           \<longrightarrow> base = 0)
      \<and> ((\<exists>s\<in>set (subscriptions_tbl db). \<exists>p\<in>set (plans_tbl db).
               sub_member_id s = mid \<and> sub_status s = ACTIVE \<and> plan_id p = sub_plan_id s)
          \<and> (\<forall>s\<in>set (subscriptions_tbl db). \<forall>p\<in>set (plans_tbl db).
               sub_member_id s = mid \<and> sub_status s = ACTIVE \<and> plan_id p = sub_plan_id s
               \<longrightarrow> plan_type p = VIP)
           \<longrightarrow> base = 1000)
      \<and> ((\<exists>s\<in>set (subscriptions_tbl db). \<exists>p\<in>set (plans_tbl db).
               sub_member_id s = mid \<and> sub_status s = ACTIVE \<and> plan_id p = sub_plan_id s)
          \<and> (\<forall>s\<in>set (subscriptions_tbl db). \<forall>p\<in>set (plans_tbl db).
               sub_member_id s = mid \<and> sub_status s = ACTIVE \<and> plan_id p = sub_plan_id s
               \<longrightarrow> plan_type p \<noteq> VIP)
           \<longrightarrow> base = 100)
      \<and> map (\<lambda>e. (wl_id e, priority_score e)) (waiting_list_tbl db')
          = map (\<lambda>e. (wl_id e, priority_score e)) (waiting_list_tbl db)
            @ [(nid, base + py_int (hours_of (now' - now)))]
      \<and> (\<bar>now' - now\<bar> < 1000000 * 3600000000 \<longrightarrow>
           py_int (hours_of (now' - now)) = whole_hours (now' - now))
      \<and> (\<bar>now' - now\<bar> < 3600000000 \<longrightarrow>
           map (\<lambda>e. (wl_id e, priority_score e)) (waiting_list_tbl db')
             = map (\<lambda>e. (wl_id e, priority_score e)) (waiting_list_tbl db) @ [(nid, base)])
      \<and> map (\<lambda>e. (wl_id e, priority_score e))
            (waiting_list_tbl (snd (promote_from_queue dbx sid2 h t)))
          = map (\<lambda>e. (wl_id e, priority_score e)) (waiting_list_tbl dbx)
      \<and> map (\<lambda>e. (wl_id e, priority_score e))
            (waiting_list_tbl (snd (confirm_assignment dbx wid t tp te tc eid)))
          = map (\<lambda>e. (wl_id e, priority_score e)) (waiting_list_tbl dbx)
      \<and> map (\<lambda>e. (wl_id e, priority_score e))
            (waiting_list_tbl (snd (check_expired_assignments dbx scope t clk)))
          = map (\<lambda>e. (wl_id e, priority_score e)) (waiting_list_tbl dbx)"
proof -
  note a = add_keeps_scores[OF assms]
  have 2: "\<bar>now' - now\<bar> < 1000000 * 3600000000 \<longrightarrow>
           py_int (hours_of (now' - now)) = whole_hours (now' - now)"
    using waiting_time_bonus_exact[of now' now] by (simp add: waiting_time_bonus_def)
  have 3: "\<bar>now' - now\<bar> < 3600000000 \<longrightarrow>
           map (\<lambda>e. (wl_id e, priority_score e)) (waiting_list_tbl db')
             = map (\<lambda>e. (wl_id e, priority_score e)) (waiting_list_tbl db)
               @ [(nid, base_score db mid)]"
    using a waiting_time_bonus_zero[of now' now] by (simp add: waiting_time_bonus_def)
  show ?thesis
    apply (intro conjI exI[of _ "base_score db mid"])
             apply (rule base_score_range)
            apply (rule impI, erule base_score_none)
           apply (rule impI, erule conjE, erule (1) base_score_vip)
          apply (rule impI, erule conjE, erule (1) base_score_other)
         apply (rule a)
        apply (rule 2)
       apply (rule 3)
      apply (rule promote_keeps_scores)
     apply (rule confirm_keeps_scores)
    apply (rule sweep_keeps_scores)
    done
qed

theorem stored_score_is_base_witness:
  "add_to_waiting_list ex_db_one ''S'' ''m2'' 20 21 ''w2'' = (Inr Detached, ex_db)
   \<and> \<bar>21 - 20 :: int\<bar> < 3600000000
   \<and> map (\<lambda>e. (wl_id e, priority_score e)) (waiting_list_tbl ex_db_one) = [(''w1'', 100)]
   \<and> map (\<lambda>e. (wl_id e, priority_score e)) (waiting_list_tbl ex_db)
       = [(''w1'', 100), (''w2'', 1000)]"
proof -
  have t: "subscriptions_tbl ex_db_one =
     [\<lparr> sub_id = ''s1'', sub_member_id = ''m1'', sub_plan_id = ''p1'', sub_status = ACTIVE \<rparr>,
      \<lparr> sub_id = ''s2'', sub_member_id = ''m2'', sub_plan_id = ''p2'', sub_status = ACTIVE \<rparr>]"
    "plans_tbl ex_db_one = [\<lparr> plan_id = ''p1'', plan_type = MONTHLY \<rparr>,
                            \<lparr> plan_id = ''p2'', plan_type = VIP \<rparr>]"
    "map (\<lambda>e. (wl_id e, priority_score e)) (waiting_list_tbl ex_db_one) = [(''w1'', 100)]"
    by (simp_all add: ex_db_one_def ex_db_def ex_entry_def)
  from stored_score_is_base[OF ex_add_vip]
  have "map (\<lambda>e. (wl_id e, priority_score e)) (waiting_list_tbl ex_db)
       = [(''w1'', 100), (''w2'', 1000)]"
    by (auto simp: t whole_hours_def)
  then show ?thesis using ex_add_vip t(3) by simp
qed

text \<open>The member without a subscription joins behind a member who joined without one
  either. The first clock reading is 30; the second, inside the calculator, is one hour
  later (the naive local clock steps by an hour when summer time begins). The stored score
  is 1, not the tier base 0, and the new entry takes position 1 from the member who has
  waited longer on the same tier.\<close>

theorem stored_score_is_base_counterexample:
  "add_to_waiting_list ex_db_lapsed ''S'' ''m3'' 30 3600000030 ''w3''
     = (Inr Detached,
        ex_db_lapsed\<lparr>waiting_list_tbl :=
          [ex_entry ''w1'' ''S'' ''m1'' WAITING 2 0 10,
           ex_entry ''w3'' ''S'' ''m3'' WAITING 1 1 30]\<rparr>)
   \<and> base_score ex_db_lapsed ''m3'' = 0
   \<and> base_score ex_db_lapsed ''m1'' = 0
   \<and> map (\<lambda>s. (sub_member_id s, sub_status s)) (subscriptions_tbl ex_db_lapsed) = [(''m2'', ACTIVE)]
   \<and> waiting_list_tbl ex_db_lapsed = [ex_entry ''w1'' ''S'' ''m1'' WAITING 1 0 10]"
  by (simp add: ex_add_lapsed)
     (simp add: ex_db_lapsed_def ex_db_def base_score_def active_subscriptions_def first_def)

subsection \<open>Listing the queue\<close>

lemma joined_product:
  "concat (map (\<lambda>wl. map (\<lambda>m. (wl, m)) (filter (\<lambda>m. m_id m = member_id wl) ms))
               (filter (\<lambda>wl. class_session_id wl = sid) tbl))
     = filter (\<lambda>(e, m). class_session_id e = sid \<and> m_id m = member_id e) (List.product tbl ms)"
  by (induction tbl) (simp_all add: filter_map comp_def)

lemma count_list_insort_key: "count_list (insort_key f x xs) y = count_list (x # xs) y"
  by (induction xs) auto

lemma count_list_sort_key: "count_list (sort_key f xs) y = count_list xs y"
  by (induction xs) (simp_all add: count_list_insort_key)

lemma row_position_to_row [simp]: "row_position (to_row now r) = position (fst r)"
  by (cases r) (simp add: to_row_def)

lemma row_created_at_to_row [simp]: "row_created_at (to_row now r) = created_at (fst r)"
  by (cases r) (simp add: to_row_def)

lemma row_waiting_hours_to_row [simp]:
  "row_waiting_hours (to_row now r) = hours_of (now - created_at (fst r))"
  by (cases r) (simp add: to_row_def)

lemma get_waiting_list_rows:
  "get_waiting_list db sid clk
     = map (\<lambda>kr. to_row (clk (fst kr)) (snd kr))
         (enumerate 0 (sort_key (\<lambda>r. position (fst r))
            (filter (\<lambda>(e, m). class_session_id e = sid \<and> m_id m = member_id e)
                    (List.product (waiting_list_tbl db) (members_tbl db)))))"
  by (simp add: get_waiting_list_def Let_def joined_product)

lemma get_waiting_list_positions:
  "map row_position (get_waiting_list db sid clk)
     = map (\<lambda>r. position (fst r))
         (sort_key (\<lambda>r. position (fst r))
            (filter (\<lambda>(e, m). class_session_id e = sid \<and> m_id m = member_id e)
                    (List.product (waiting_list_tbl db) (members_tbl db))))"
proof -
  have "map row_position (map (\<lambda>kr. to_row (clk (fst kr)) (snd kr)) (enumerate 0 es))
          = map (\<lambda>r. position (fst r)) es" for es :: "(WaitingList \<times> Member) list"
  proof -
    have "map (\<lambda>r. position (fst r)) es = map (\<lambda>r. position (fst r)) (map snd (enumerate 0 es))"
      by (simp only: map_snd_enumerate)
    also have "\<dots> = map row_position (map (\<lambda>kr. to_row (clk (fst kr)) (snd kr)) (enumerate 0 es))"
      unfolding map_map by (rule map_cong) simp_all
    finally show ?thesis by (rule sym)
  qed
  then show ?thesis unfolding get_waiting_list_rows .
qed

lemma get_waiting_list_sorted: "sorted (map row_position (get_waiting_list db sid clk))"
  unfolding get_waiting_list_positions by (rule sorted_sort_key)

lemma get_waiting_list_nth:
  assumes "k < length (get_waiting_list db sid clk)"
  shows "\<exists>r. get_waiting_list db sid clk ! k = to_row (clk k) r"
proof -
  let ?es = "sort_key (\<lambda>r. position (fst r))
            (filter (\<lambda>(e, m). class_session_id e = sid \<and> m_id m = member_id e)
                    (List.product (waiting_list_tbl db) (members_tbl db)))"
  have k: "k < length ?es" using assms unfolding get_waiting_list_rows by simp
  then have "get_waiting_list db sid clk ! k = to_row (clk k) (?es ! k)"
    unfolding get_waiting_list_rows by (simp add: nth_enumerate_eq)
  then show ?thesis ..
qed

lemma ex_listing:
  "get_waiting_list ex_db_held ''S'' (\<lambda>k. 7200000020 + int k)
     = [to_row 7200000020 (ex_entry ''w1'' ''S'' ''m1'' WAITING 1 100 10,
                           \<lparr> m_id = ''m1'', fullname = ''Ann'' \<rparr>),
        to_row 7200000021 ((ex_entry ''w2'' ''S'' ''m2'' ASSIGNED 1 1000 20)
                              \<lparr>assigned_at := Some 30, approval_deadline := Some 86400000030\<rparr>,
                           \<lparr> m_id = ''m2'', fullname = ''Bob'' \<rparr>)]"
  by (simp add: get_waiting_list_def Let_def ex_db_held_def ex_db_def ex_entry_def enumerate_eq_zip
        upt_rec)

lemma hours_of_two_hours: "hours_of 7200000010 \<noteq> 7200000010 / 3600000000"
  by code_simp

text \<open>
  Claim C9, as the code has it. \<^verbatim>\<open>get_waiting_list\<close> returns one list. Its rows are
  those of the join of the session's entries with their members, each pair once, whatever
  the status of the entry, in ascending order of position: an ASSIGNED entry stands in
  that same list at its stored position, marked by its status. The row of index \<open>k\<close> carries
  the id, member, name, position, status, score and the three timestamps of its entry, and
  the hours from \<open>created_at\<close> to the clock reading taken for that row, computed in doubles:
  they are within a relative error of \<open>2\<^sup>-\<^sup>5\<^sup>1\<close> of the exact quotient. The WAITING rows of
  the list are in ascending position order.
\<close>

theorem queue_listing:
  "(\<exists>es. (\<forall>x. count_list es x
              = count_list (filter (\<lambda>(e, m). class_session_id e = sid \<and> m_id m = member_id e)
                                   (List.product (waiting_list_tbl db) (members_tbl db))) x)
        \<and> sorted (map (\<lambda>(e, m). position e) es)
        \<and> get_waiting_list db sid clk
            = map (\<lambda>(k, (e, m)).
                     \<lparr> row_id = wl_id e, row_member_id = member_id e, row_member_name = fullname m,
                       row_position = position e, row_status = status e,
                       row_priority_score = priority_score e, row_created_at = created_at e,
                       row_assigned_at = assigned_at e,
                       row_approval_deadline = approval_deadline e,
                       row_waiting_hours = hours_of (clk k - created_at e) \<rparr>)
                  (enumerate 0 es))
   \<and> sorted (map row_position (get_waiting_list db sid clk))
   \<and> sorted (map row_position (filter (\<lambda>r. row_status r = WAITING) (get_waiting_list db sid clk)))
   \<and> (\<forall>k < length (get_waiting_list db sid clk).
        \<bar>row_waiting_hours (get_waiting_list db sid clk ! k)
           - of_int (clk k - row_created_at (get_waiting_list db sid clk ! k)) / 3600000000\<bar>
          \<le> \<bar>of_int (clk k - row_created_at (get_waiting_list db sid clk ! k)) / 3600000000\<bar> / 2 ^ 51)"
proof (intro conjI)
  let ?J = "filter (\<lambda>(e, m). class_session_id e = sid \<and> m_id m = member_id e)
                   (List.product (waiting_list_tbl db) (members_tbl db))"
  let ?es = "sort_key (\<lambda>r. position (fst r)) ?J"
  have 1: "\<forall>x. count_list ?es x = count_list ?J x" by (simp add: count_list_sort_key)
  have f: "(\<lambda>(e, m). position e) = (\<lambda>r :: WaitingList \<times> Member. position (fst r))"
    by (rule ext) (simp add: case_prod_beta)
  have 2: "sorted (map (\<lambda>(e, m). position e) ?es)" unfolding f by (rule sorted_sort_key)
  have g: "(\<lambda>(k, (e, m)).
                     \<lparr> row_id = wl_id e, row_member_id = member_id e, row_member_name = fullname m,
                       row_position = position e, row_status = status e,
                       row_priority_score = priority_score e, row_created_at = created_at e,
                       row_assigned_at = assigned_at e,
                       row_approval_deadline = approval_deadline e,
                       row_waiting_hours = hours_of (clk k - created_at e) \<rparr>)
           = (\<lambda>kr. to_row (clk (fst kr)) (snd kr))"
    by (rule ext) (simp add: to_row_def case_prod_beta)
  have 3: "get_waiting_list db sid clk
            = map (\<lambda>(k, (e, m)).
                     \<lparr> row_id = wl_id e, row_member_id = member_id e, row_member_name = fullname m,
                       row_position = position e, row_status = status e,
                       row_priority_score = priority_score e, row_created_at = created_at e,
                       row_assigned_at = assigned_at e,
                       row_approval_deadline = approval_deadline e,
                       row_waiting_hours = hours_of (clk k - created_at e) \<rparr>)
                  (enumerate 0 ?es)"
    unfolding g by (rule get_waiting_list_rows)
  from 1 2 3 show "\<exists>es. (\<forall>x. count_list es x = count_list ?J x)
        \<and> sorted (map (\<lambda>(e, m). position e) es)
        \<and> get_waiting_list db sid clk
            = map (\<lambda>(k, (e, m)).
                     \<lparr> row_id = wl_id e, row_member_id = member_id e, row_member_name = fullname m,
                       row_position = position e, row_status = status e,
                       row_priority_score = priority_score e, row_created_at = created_at e,
                       row_assigned_at = assigned_at e,
                       row_approval_deadline = approval_deadline e,
                       row_waiting_hours = hours_of (clk k - created_at e) \<rparr>)
                  (enumerate 0 es)"
    by blast
  show "sorted (map row_position (get_waiting_list db sid clk))"
    by (rule get_waiting_list_sorted)
  show "sorted (map row_position (filter (\<lambda>r. row_status r = WAITING) (get_waiting_list db sid clk)))"
    using get_waiting_list_sorted[of db sid clk] by (rule sorted_filter)
  show "\<forall>k < length (get_waiting_list db sid clk).
        \<bar>row_waiting_hours (get_waiting_list db sid clk ! k)
           - of_int (clk k - row_created_at (get_waiting_list db sid clk ! k)) / 3600000000\<bar>
          \<le> \<bar>of_int (clk k - row_created_at (get_waiting_list db sid clk ! k)) / 3600000000\<bar> / 2 ^ 51"
  proof (intro allI impI)
    fix k assume "k < length (get_waiting_list db sid clk)"
    then obtain r where r: "get_waiting_list db sid clk ! k = to_row (clk k) r"
      using get_waiting_list_nth by blast
    show "\<bar>row_waiting_hours (get_waiting_list db sid clk ! k)
           - of_int (clk k - row_created_at (get_waiting_list db sid clk ! k)) / 3600000000\<bar>
          \<le> \<bar>of_int (clk k - row_created_at (get_waiting_list db sid clk ! k)) / 3600000000\<bar> / 2 ^ 51"
      unfolding r by (simp only: row_waiting_hours_to_row row_created_at_to_row hours_of_error)
  qed
qed

theorem queue_listing_witness:
  "length (get_waiting_list ex_db_held ''S'' (\<lambda>k. 7200000020 + int k)) = 2
   \<and> map row_id (get_waiting_list ex_db_held ''S'' (\<lambda>k. 7200000020 + int k)) = [''w1'', ''w2'']
   \<and> map row_created_at (get_waiting_list ex_db_held ''S'' (\<lambda>k. 7200000020 + int k)) = [10, 20]
   \<and> \<bar>row_waiting_hours (get_waiting_list ex_db_held ''S'' (\<lambda>k. 7200000020 + int k) ! 1)
        - 7200000001 / 3600000000\<bar> \<le> \<bar>7200000001 / 3600000000\<bar> / 2 ^ 51
   \<and> sorted (map row_position (get_waiting_list ex_db_held ''S'' (\<lambda>k. 7200000020 + int k)))"
proof -
  have l: "length (get_waiting_list ex_db_held ''S'' (\<lambda>k. 7200000020 + int k)) = 2"
    "map row_id (get_waiting_list ex_db_held ''S'' (\<lambda>k. 7200000020 + int k)) = [''w1'', ''w2'']"
    "map row_created_at (get_waiting_list ex_db_held ''S'' (\<lambda>k. 7200000020 + int k)) = [10, 20]"
    "row_created_at (get_waiting_list ex_db_held ''S'' (\<lambda>k. 7200000020 + int k) ! 1) = 20"
    by (simp_all add: ex_listing ex_entry_def to_row_def)
  note t = queue_listing[of "''S''" ex_db_held "\<lambda>k. 7200000020 + int k"]
  from t have s: "sorted (map row_position (get_waiting_list ex_db_held ''S'' (\<lambda>k. 7200000020 + int k)))"
    by blast
  from t have "\<forall>k < length (get_waiting_list ex_db_held ''S'' (\<lambda>k. 7200000020 + int k)).
        \<bar>row_waiting_hours (get_waiting_list ex_db_held ''S'' (\<lambda>k. 7200000020 + int k) ! k)
           - of_int (7200000020 + int k
                     - row_created_at (get_waiting_list ex_db_held ''S'' (\<lambda>k. 7200000020 + int k) ! k))
             / 3600000000\<bar>
          \<le> \<bar>of_int (7200000020 + int k
                     - row_created_at (get_waiting_list ex_db_held ''S'' (\<lambda>k. 7200000020 + int k) ! k))
             / 3600000000\<bar> / 2 ^ 51"
    by blast
  then have "\<bar>row_waiting_hours (get_waiting_list ex_db_held ''S'' (\<lambda>k. 7200000020 + int k) ! 1)
           - of_int (7200000020 + int 1
                     - row_created_at (get_waiting_list ex_db_held ''S'' (\<lambda>k. 7200000020 + int k) ! 1))
             / 3600000000\<bar>
          \<le> \<bar>of_int (7200000020 + int 1
                     - row_created_at (get_waiting_list ex_db_held ''S'' (\<lambda>k. 7200000020 + int k) ! 1))
             / 3600000000\<bar> / 2 ^ 51"
    using l(1) by (metis one_less_numeral_iff semiring_norm(76))
  then have h: "\<bar>row_waiting_hours (get_waiting_list ex_db_held ''S'' (\<lambda>k. 7200000020 + int k) ! 1)
        - 7200000001 / 3600000000\<bar> \<le> \<bar>7200000001 / 3600000000\<bar> / 2 ^ 51"
    unfolding l(4) by simp
  from l(1-3) h s show ?thesis by blast
qed

lemma ex_listing_one_clock:
  "get_waiting_list ex_db_held ''S'' (\<lambda>k. 7200000020)
     = [to_row 7200000020 (ex_entry ''w1'' ''S'' ''m1'' WAITING 1 100 10,
                           \<lparr> m_id = ''m1'', fullname = ''Ann'' \<rparr>),
        to_row 7200000020 ((ex_entry ''w2'' ''S'' ''m2'' ASSIGNED 1 1000 20)
                              \<lparr>assigned_at := Some 30, approval_deadline := Some 86400000030\<rparr>,
                           \<lparr> m_id = ''m2'', fullname = ''Bob'' \<rparr>)]"
  by (simp add: get_waiting_list_def Let_def ex_db_held_def ex_db_def ex_entry_def enumerate_eq_zip
        upt_rec)

text \<open>The member on a monthly plan waits at position 1 while the VIP member holds the
  offered spot. The entry of the VIP member, ASSIGNED, is a row of the one list that is
  returned, with the same position 1 as the WAITING row; nothing is reported apart. With
  every clock reading at 7200000020 the WAITING row has waited 7200000010 microseconds,
  and the hours it carries are the double nearest to that quotient, not the quotient.\<close>

theorem queue_listing_counterexample:
  "length (get_waiting_list ex_db_held ''S'' (\<lambda>k. 7200000020)) = 2
   \<and> set (map (\<lambda>r. (row_id r, row_status r, row_position r))
              (get_waiting_list ex_db_held ''S'' (\<lambda>k. 7200000020)))
       = {(''w1'', WAITING, 1), (''w2'', ASSIGNED, 1)}
   \<and> (\<exists>r\<in>set (get_waiting_list ex_db_held ''S'' (\<lambda>k. 7200000020)).
         row_id r = ''w1'' \<and> row_created_at r = 10
         \<and> row_waiting_hours r \<noteq> of_int (7200000020 - 10) / 3600000000)"
  using hours_of_two_hours by (simp add: ex_listing_one_clock ex_entry_def to_row_def)

subsection \<open>Insertion order\<close>








lemma outranks_shift [simp]: "outranks s t (shift_entry sid fp e) = outranks s t e"
  by (simp add: outranks_def)








end
